theory Spec2Isabelle
  imports Main "HOL-Library.AList" "HOL-Library.Word"
begin

section \<open>The logging package \<open>pkg/infra/log\<close>: data model\<close>

text \<open>
  The theory embeds \<open>pkg/infra/log/log.go\<close>. Strings are byte strings, in UTF-8 where
  they hold text outside ASCII. Everything the package gets from other
  packages is kept at its interface: go-kit loggers are terms built from the constructors
  the package calls (\<open>log.With\<close>, \<open>level.NewFilter\<close>), a \<open>level.Option\<close> is one of the four
  options the package ever builds, the \<open>ini.File\<close> is the table of what its lookups return,
  and the operating system and the file and syslog writers are a record of outcomes.
\<close>

datatype level_option = AllowDebug | AllowInfo | AllowWarn | AllowError

datatype level_value = DebugValue | InfoValue | WarnValue | ErrorValue

datatype error =
    SectionNotExist string
  | ExternalError string
  | Wrapf error string "string list"

text \<open>A value passed in a \<open>keyvals ...interface{}\<close> list.\<close>

datatype keyval =
    S string
  | LevelKey
  | LevelV level_value
  | E error
  | L "keyval list"

text \<open>The three results of \<open>getLogFormat\<close>: the terminal logger with colours, logfmt, JSON.\<close>

datatype format = TermLogfmt | Logfmt | JSONFormat

text \<open>
  The fields \<open>ReadLoggingConfig\<close> sets on the writer that \<open>NewFileWriter\<close> returns.
  \<open>Maxsize\<close> is a Go \<open>int\<close>, 64 bits wide.
\<close>

record FileLogWriter =
  Filename :: string
  Format :: format
  Rotate :: bool
  Maxlines :: int
  Maxsize :: "64 word"
  Daily :: bool
  Maxdays :: int

text \<open>
  A \<open>log.Logger\<close> value: the console logger \<open>format(os.Stdout)\<close>, a file writer, the syslog
  writer \<open>NewSyslog(sec, format)\<close>, and the two go-kit wrappers. The file and syslog writers
  are also the objects held in \<open>loggersToClose\<close> and \<open>loggersToReload\<close>.
\<close>

datatype logger =
    ConsoleLogger format
  | FileLogger FileLogWriter
  | SyslogLogger format
  | With logger "keyval list"
  | NewFilter logger level_option

type_synonym filterMap = "(string \<times> level_option) list"

record LogWithFilters =
  val :: logger
  filters :: filterMap
  maxLevel :: level_option

record MultiLoggers =
  loggers :: "LogWithFilters list"

text \<open>A call of a method of a registered handler, in the order the calls are made.\<close>

datatype call = CloseCall logger | ReloadCall logger

text \<open>
  The package variables. \<open>llog\<close> is the bootstrap logger, modelled by the records written
  to it; \<open>globalFilters\<close> is the package variable \<open>filters\<close>; \<open>calls\<close> records the \<open>Close\<close>
  and \<open>Reload\<close> methods invoked on handlers.
\<close>

record state =
  llog :: "keyval list list"
  loggersToClose :: "logger list"
  loggersToReload :: "logger list"
  globalFilters :: filterMap
  Root :: MultiLoggers
  calls :: "call list"

text \<open>The state after \<open>init()\<close>; \<open>Root\<close> is the zero value of \<open>MultiLoggers\<close>.\<close>

definition init :: state where
  "init = \<lparr>llog = [], loggersToClose = [], loggersToReload = [], globalFilters = [],
           Root = \<lparr>loggers = []\<rparr>, calls = []\<rparr>"

text \<open>
  What the surroundings answer: whether standard output is a terminal, \<open>os.MkdirAll\<close>,
  \<open>fileHandler.Init\<close>, the \<open>Close\<close> and \<open>Reload\<close> methods of a handler, the two path
  functions of \<open>path/filepath\<close>, and the lower-casing of a string that is not all ASCII
  (\<open>unicode.ToLower\<close> mapped over its runes, by the tables of the \<open>unicode\<close> package).
\<close>

record env =
  isTerminal :: bool
  MkdirAll :: "string \<Rightarrow> error option"
  fileInit :: "FileLogWriter \<Rightarrow> error option"
  handlerClose :: "logger \<Rightarrow> error option"
  handlerReload :: "logger \<Rightarrow> error option"
  filepathJoin :: "string \<Rightarrow> string \<Rightarrow> string"
  filepathDir :: "string \<Rightarrow> string"
  unicodeToLower :: "string \<Rightarrow> string"

text \<open>
  The configuration file, by what its lookups return: whether \<open>GetSection\<close> finds a
  section, the string of a key of a section (empty when unset), the list
  \<open>util.SplitString\<close> makes of it, and the parsed boolean or integer of a key (\<open>None\<close> when
  the key is unset or does not parse).
\<close>

record ini_File =
  GetSection :: "string \<Rightarrow> bool"
  KeyString :: "string \<Rightarrow> string \<Rightarrow> string"
  KeySplitString :: "string \<Rightarrow> string \<Rightarrow> string list"
  KeyBool :: "string \<Rightarrow> string \<Rightarrow> bool option"
  KeyInt :: "string \<Rightarrow> string \<Rightarrow> int option"

definition MustString :: "string \<Rightarrow> string \<Rightarrow> string" where
  "MustString v defaultVal = (if v = [] then defaultVal else v)"

definition MustBool :: "bool option \<Rightarrow> bool \<Rightarrow> bool" where
  "MustBool v defaultVal = (case v of None \<Rightarrow> defaultVal | Some b \<Rightarrow> b)"

definition MustInt :: "int option \<Rightarrow> int \<Rightarrow> int" where
  "MustInt v defaultVal = (case v of None \<Rightarrow> defaultVal | Some i \<Rightarrow> i)"

section \<open>Strings\<close>

text \<open>
  \<open>strings.ToLower\<close>: a string of ASCII bytes has its letters \<open>A\<close> to \<open>Z\<close> lowered byte by
  byte; a string with a byte outside ASCII is lowered rune by rune, by the function the
  caller passes.
\<close>

definition ToLower_char :: "char \<Rightarrow> char" where
  "ToLower_char c =
     (case map_of (zip ''ABCDEFGHIJKLMNOPQRSTUVWXYZ'' ''abcdefghijklmnopqrstuvwxyz'') c of
        None \<Rightarrow> c
      | Some l \<Rightarrow> l)"

definition ToLower :: "(string \<Rightarrow> string) \<Rightarrow> string \<Rightarrow> string" where
  "ToLower lowerRunes s =
     (if list_all (\<lambda>c. \<not> digit7 c) s then map ToLower_char s else lowerRunes s)"

text \<open>
  The runes for which \<open>unicode.IsSpace\<close> holds, each by its UTF-8 bytes: tab, line feed,
  vertical tab, form feed, carriage return, space, U+0085, U+00A0, U+1680, U+2000 to
  U+200A, U+2028, U+2029, U+202F, U+205F and U+3000.
\<close>

definition spaceRunes :: "string list" where
  "spaceRunes =
     [[CHR 0x09], [CHR 0x0A], [CHR 0x0B], [CHR 0x0C], [CHR 0x0D], [CHR 0x20],
      [CHR 0xC2, CHR 0x85], [CHR 0xC2, CHR 0xA0],
      [CHR 0xE1, CHR 0x9A, CHR 0x80],
      [CHR 0xE2, CHR 0x80, CHR 0x80], [CHR 0xE2, CHR 0x80, CHR 0x81],
      [CHR 0xE2, CHR 0x80, CHR 0x82], [CHR 0xE2, CHR 0x80, CHR 0x83],
      [CHR 0xE2, CHR 0x80, CHR 0x84], [CHR 0xE2, CHR 0x80, CHR 0x85],
      [CHR 0xE2, CHR 0x80, CHR 0x86], [CHR 0xE2, CHR 0x80, CHR 0x87],
      [CHR 0xE2, CHR 0x80, CHR 0x88], [CHR 0xE2, CHR 0x80, CHR 0x89],
      [CHR 0xE2, CHR 0x80, CHR 0x8A],
      [CHR 0xE2, CHR 0x80, CHR 0xA8], [CHR 0xE2, CHR 0x80, CHR 0xA9],
      [CHR 0xE2, CHR 0x80, CHR 0xAF],
      [CHR 0xE2, CHR 0x81, CHR 0x9F],
      [CHR 0xE3, CHR 0x80, CHR 0x80]]"

text \<open>
  Dropping, from the front of a string, every leading occurrence of one of the given
  byte sequences. Go decodes a white-space rune at the front (at the end) of a string
  exactly when the string begins (ends) with the bytes of one, so \<open>strings.TrimSpace\<close>
  drops the encodings of \<open>spaceRunes\<close> from the front, and then from the end.
\<close>

function trimPrefixes :: "string list \<Rightarrow> string \<Rightarrow> string" where
  "trimPrefixes ws s =
     (case List.find (\<lambda>w. w \<noteq> [] \<and> take (length w) s = w) ws of
        None \<Rightarrow> s
      | Some w \<Rightarrow> trimPrefixes ws (drop (length w) s))"
  by pat_completeness auto
termination
proof (relation "measure (\<lambda>(ws, s). length s)")
  show "wf (measure (\<lambda>(ws, s). length s))"
    by simp
next
  fix ws :: "string list" and s w :: string
  assume "List.find (\<lambda>w. w \<noteq> [] \<and> take (length w) s = w) ws = Some w"
  then have w: "w \<noteq> []" and t: "take (length w) s = w"
    by (auto simp: find_Some_iff)
  from w t have "s \<noteq> []"
    by auto
  with w show "((ws, drop (length w) s), (ws, s)) \<in> measure (\<lambda>(ws, s). length s)"
    by simp
qed

declare trimPrefixes.simps [simp del]

definition TrimSpace :: "string \<Rightarrow> string" where
  "TrimSpace s = rev (trimPrefixes (map rev spaceRunes) (rev (trimPrefixes spaceRunes s)))"

text \<open>\<open>strings.Split(s, sep)\<close> for a separator of one byte: never empty.\<close>

fun Split :: "string \<Rightarrow> char \<Rightarrow> string list" where
  "Split [] sep = [[]]"
| "Split (c # cs) sep =
     (if c = sep then [] # Split cs sep
      else (case Split cs sep of
              [] \<Rightarrow> [[c]]
            | p # ps \<Rightarrow> (c # p) # ps))"

section \<open>Level names and filters\<close>

definition logLevels :: "string \<rightharpoonup> level_option" where
  "logLevels = map_of
     [(''trace'', AllowDebug),
      (''debug'', AllowDebug),
      (''info'', AllowInfo),
      (''warn'', AllowWarn),
      (''error'', AllowError),
      (''critical'', AllowError)]"

text \<open>
  \<open>level.Error(llog).Log(keyvals...)\<close> writes one record: the keyvals after the level pair.
  \<open>getLogLevelFromString\<close> takes the bootstrap log and returns it with what was written.
\<close>

definition levelError :: "keyval list \<Rightarrow> keyval list" where
  "levelError keyvals = LevelKey # LevelV ErrorValue # keyvals"

definition getLogLevelFromString ::
  "string \<Rightarrow> keyval list list \<Rightarrow> level_option \<times> keyval list list" where
  "getLogLevelFromString levelName lg =
     (case logLevels levelName of
        None \<Rightarrow>
          (AllowError, lg @ [levelError [S ''Unknown log level'', S ''level'', S levelName]])
      | Some loglevel \<Rightarrow> (loglevel, lg))"

definition getLogLevelFromConfig ::
  "env \<Rightarrow> string \<Rightarrow> string \<Rightarrow> ini_File \<Rightarrow> keyval list list
     \<Rightarrow> string \<times> level_option \<times> keyval list list" where
  "getLogLevelFromConfig ev key defaultName cfg lg =
     (let levelName = MustString (KeyString cfg key ''level'') defaultName;
          levelName = ToLower (unicodeToLower ev) levelName;
          (level, lg') = getLogLevelFromString levelName lg
      in (levelName, level, lg'))"

text \<open>
  A Go map is an association list with distinct keys: \<open>m[k]\<close> is \<open>map_of m k\<close>, and
  \<open>m[k] = v\<close> is \<open>AList.update k v m\<close>.
\<close>

fun getFilters_loop ::
  "string list \<Rightarrow> filterMap \<Rightarrow> keyval list list \<Rightarrow> filterMap \<times> keyval list list" where
  "getFilters_loop [] filterMap lg = (filterMap, lg)"
| "getFilters_loop (filterStr # rest) filterMap lg =
     (let parts = Split filterStr CHR '':'' in
      if length parts > 1 then
        (let (lv, lg') = getLogLevelFromString (parts ! 1) lg
         in getFilters_loop rest (AList.update (parts ! 0) lv filterMap) lg')
      else getFilters_loop rest filterMap lg)"

definition getFilters ::
  "string list \<Rightarrow> keyval list list \<Rightarrow> filterMap \<times> keyval list list" where
  "getFilters filterStrArray lg = getFilters_loop filterStrArray [] lg"

section \<open>Named loggers\<close>

fun New_loop ::
  "string \<Rightarrow> keyval list \<Rightarrow> LogWithFilters list \<Rightarrow> MultiLoggers \<Rightarrow> MultiLoggers" where
  "New_loop logger ctx [] newloger = newloger"
| "New_loop logger ctx (logWithFilter # rest) newloger =
     (let lwf = logWithFilter\<lparr>val := With (val logWithFilter) [L (S ''logger'' # S logger # ctx)]\<rparr>;
          lwf = (case map_of (filters lwf) logger of
                   Some v \<Rightarrow> lwf\<lparr>val := NewFilter (val lwf) v\<rparr>
                 | None \<Rightarrow> lwf\<lparr>val := NewFilter (val lwf) (maxLevel lwf)\<rparr>)
      in New_loop logger ctx rest (newloger\<lparr>loggers := loggers newloger @ [lwf]\<rparr>))"

definition New :: "string \<Rightarrow> keyval list \<Rightarrow> state \<Rightarrow> MultiLoggers" where
  "New logger ctx st = New_loop logger ctx (loggers (Root st)) \<lparr>loggers = []\<rparr>"

text \<open>
  The dispatch methods, by the \<open>Log\<close> calls they make: the logger called and the keyvals
  passed, one call per entry, in order.
\<close>

definition dispatch ::
  "level_value \<Rightarrow> MultiLoggers \<Rightarrow> string \<Rightarrow> keyval list \<Rightarrow> (logger \<times> keyval list) list" where
  "dispatch lv ml msg args =
     map (\<lambda>multilogger. (val multilogger, [LevelKey, LevelV lv, S ''msg'', S msg, L args]))
       (loggers ml)"

definition Warn :: "MultiLoggers \<Rightarrow> string \<Rightarrow> keyval list \<Rightarrow> (logger \<times> keyval list) list" where
  "Warn ml msg args = dispatch WarnValue ml msg args"

definition Debug :: "MultiLoggers \<Rightarrow> string \<Rightarrow> keyval list \<Rightarrow> (logger \<times> keyval list) list" where
  "Debug ml msg args = dispatch DebugValue ml msg args"

definition Error :: "MultiLoggers \<Rightarrow> string \<Rightarrow> keyval list \<Rightarrow> (logger \<times> keyval list) list" where
  "Error ml msg args = dispatch ErrorValue ml msg args"

definition Info :: "MultiLoggers \<Rightarrow> string \<Rightarrow> keyval list \<Rightarrow> (logger \<times> keyval list) list" where
  "Info ml msg args = dispatch InfoValue ml msg args"

section \<open>Close and Reload\<close>

fun Close_loop ::
  "env \<Rightarrow> logger list \<Rightarrow> error option \<Rightarrow> call list \<Rightarrow> error option \<times> call list" where
  "Close_loop ev [] err cs = (err, cs)"
| "Close_loop ev (logger # rest) err cs =
     (let e = handlerClose ev logger;
          err' = (if e \<noteq> None \<and> err = None then e else err)
      in Close_loop ev rest err' (cs @ [CloseCall logger]))"

definition Close :: "env \<Rightarrow> state \<Rightarrow> error option \<times> state" where
  "Close ev st =
     (let (err, cs) = Close_loop ev (loggersToClose st) None (calls st)
      in (err, st\<lparr>loggersToClose := [], calls := cs\<rparr>))"

fun Reload_loop :: "env \<Rightarrow> logger list \<Rightarrow> call list \<Rightarrow> error option \<times> call list" where
  "Reload_loop ev [] cs = (None, cs)"
| "Reload_loop ev (logger # rest) cs =
     (case handlerReload ev logger of
        Some err \<Rightarrow> (Some err, cs @ [ReloadCall logger])
      | None \<Rightarrow> Reload_loop ev rest (cs @ [ReloadCall logger]))"

definition Reload :: "env \<Rightarrow> state \<Rightarrow> error option \<times> state" where
  "Reload ev st =
     (let (err, cs) = Reload_loop ev (loggersToReload st) (calls st)
      in (err, st\<lparr>calls := cs\<rparr>))"

section \<open>Loading the configuration\<close>

definition getLogFormat :: "env \<Rightarrow> string \<Rightarrow> format" where
  "getLogFormat ev format =
     (if format = ''console'' then (if isTerminal ev then TermLogfmt else Logfmt)
      else if format = ''text'' then Logfmt
      else if format = ''json'' then JSONFormat
      else Logfmt)"

text \<open>
  How \<open>ReadLoggingConfig\<close> ends: it returns (\<open>nil\<close> or an error) or it panics with the
  message \<open>fmt.Sprintf\<close> makes of a format string and its arguments.
\<close>

datatype outcome = Returned "error option" | Panicked string "string list"

text \<open>
  The \<open>switch mode\<close> of the loop body: the value left in \<open>handler.val\<close> (\<open>None\<close> for \<open>nil\<close>,
  when no case matches), or the error the loop returns.
\<close>

definition newHandler ::
  "env \<Rightarrow> ini_File \<Rightarrow> string \<Rightarrow> string \<Rightarrow> string \<Rightarrow> format \<Rightarrow> state
     \<Rightarrow> (error + logger option) \<times> state" where
  "newHandler ev cfg logsPath sec mode format st =
     (if mode = ''console'' then (Inr (Some (ConsoleLogger format)), st)
      else if mode = ''file'' then
        (let fileName =
               MustString (KeyString cfg sec ''file_name'') (filepathJoin ev logsPath ''grafana.log'');
             dpath = filepathDir ev fileName
         in case MkdirAll ev dpath of
              Some err \<Rightarrow>
                (Inl (Wrapf err ''failed to create log directory %q'' [dpath]),
                 st\<lparr>llog := llog st @
                   [levelError [S ''Failed to create directory'', S ''dpath'', S dpath, S ''err'', E err]]\<rparr>)
            | None \<Rightarrow>
                (let fileHandler =
                       \<lparr>Filename = fileName,
                        Format = format,
                        Rotate = MustBool (KeyBool cfg sec ''log_rotate'') True,
                        Maxlines = MustInt (KeyInt cfg sec ''max_lines'') 1000000,
                        Maxsize =
                          push_bit
                            (unat (word_of_int (MustInt (KeyInt cfg sec ''max_size_shift'') 28) :: 64 word))
                            (1 :: 64 word),
                        Daily = MustBool (KeyBool cfg sec ''daily_rotate'') True,
                        Maxdays = MustInt (KeyInt cfg sec ''max_days'') 7\<rparr>
                 in case fileInit ev fileHandler of
                      Some err \<Rightarrow>
                        (Inl (Wrapf err ''failed to initialize file handler'' []),
                         st\<lparr>llog := llog st @
                           [levelError
                              [S ''Failed to initialize file handler'', S ''dpath'', S dpath,
                               S ''err'', E err]]\<rparr>)
                    | None \<Rightarrow>
                        (Inr (Some (FileLogger fileHandler)),
                         st\<lparr>loggersToClose := loggersToClose st @ [FileLogger fileHandler],
                            loggersToReload := loggersToReload st @ [FileLogger fileHandler]\<rparr>)))
      else if mode = ''syslog'' then
        (let sysLogHandler = SyslogLogger format
         in (Inr (Some sysLogHandler),
             st\<lparr>loggersToClose := loggersToClose st @ [sysLogHandler]\<rparr>))
      else (Inr None, st))"

text \<open>
  The two merge loops have one shape: for every entry of \<open>src\<close>, in the order of the
  iteration, store it in \<open>dst\<close> unless \<open>dst\<close> has the key.
\<close>

fun copyAbsent :: "filterMap \<Rightarrow> filterMap \<Rightarrow> filterMap" where
  "copyAbsent [] dst = dst"
| "copyAbsent ((key, value) # rest) dst =
     copyAbsent rest (if map_of dst key = None then AList.update key value dst else dst)"

text \<open>
  The two loops of the loop body, on the mode's table and the package's table: the
  mode's table joined with the defaults, and the package's table with the joined table
  copied into it.
\<close>

definition joinFilters :: "filterMap \<Rightarrow> filterMap \<Rightarrow> filterMap \<Rightarrow> filterMap \<times> filterMap" where
  "joinFilters defaultFilters modeFilters fs =
     (let modeFilters = copyAbsent defaultFilters modeFilters;
          fs = copyAbsent modeFilters fs
      in (modeFilters, fs))"

fun loadModes ::
  "env \<Rightarrow> ini_File \<Rightarrow> string \<Rightarrow> string \<Rightarrow> filterMap \<Rightarrow> string list \<Rightarrow> state
     \<Rightarrow> outcome \<times> state" where
  "loadModes ev cfg logsPath defaultLevelName defaultFilters [] st = (Returned None, st)"
| "loadModes ev cfg logsPath defaultLevelName defaultFilters (m # rest) st =
     (let mode = TrimSpace m; sec = ''log.'' @ mode in
      if \<not> GetSection cfg sec then
        (Returned
           (Some (Wrapf (SectionNotExist sec) ''failed to get config section log.%s'' [mode])),
         st\<lparr>llog := llog st @ [levelError [S ''Unknown log mode'', S ''mode'', S mode]]\<rparr>)
      else
        (let (levelName, leveloption, lg1) =
               getLogLevelFromConfig ev sec defaultLevelName cfg (llog st);
             (modeFilters, lg2) = getFilters (KeySplitString cfg sec ''filters'') lg1;
             format = getLogFormat ev (MustString (KeyString cfg sec ''format'') [])
         in case newHandler ev cfg logsPath sec mode format (st\<lparr>llog := lg2\<rparr>) of
              (Inl err, st') \<Rightarrow> (Returned (Some err), st')
            | (Inr None, st') \<Rightarrow>
                (Panicked ''Handler is uninitialized for mode %q'' [mode], st')
            | (Inr (Some v), st') \<Rightarrow>
                (let (modeFilters, fs) = joinFilters defaultFilters modeFilters (globalFilters st');
                     handler = \<lparr>val = v, filters = modeFilters, maxLevel = leveloption\<rparr>
                 in loadModes ev cfg logsPath defaultLevelName defaultFilters rest
                      (st'\<lparr>globalFilters := fs,
                           Root := (Root st')\<lparr>loggers := loggers (Root st') @ [handler]\<rparr>\<rparr>))))"

definition ReadLoggingConfig ::
  "env \<Rightarrow> string list \<Rightarrow> string \<Rightarrow> ini_File \<Rightarrow> state \<Rightarrow> outcome \<times> state" where
  "ReadLoggingConfig ev modes logsPath cfg st =
     (case Close ev st of
        (Some err, st') \<Rightarrow> (Returned (Some err), st')
      | (None, st') \<Rightarrow>
          (let (defaultLevelName, _, lg1) = getLogLevelFromConfig ev ''log'' ''info'' cfg (llog st');
               (defaultFilters, lg2) = getFilters (KeySplitString cfg ''log'' ''filters'') lg1
           in loadModes ev cfg logsPath defaultLevelName defaultFilters modes (st'\<lparr>llog := lg2\<rparr>)))"

section \<open>Reference definitions and example inputs\<close>

text \<open>
  The parts of a filter string, written without \<open>Split\<close>: the text before the first \<open>:\<close>,
  the text between the first and the second \<open>:\<close>, and whether there is a \<open>:\<close> at all.
\<close>

definition filterName :: "string \<Rightarrow> string" where
  "filterName s = takeWhile (\<lambda>c. c \<noteq> CHR '':'') s"

definition filterLevelName :: "string \<Rightarrow> string" where
  "filterLevelName s =
     takeWhile (\<lambda>c. c \<noteq> CHR '':'') (tl (dropWhile (\<lambda>c. c \<noteq> CHR '':'') s))"

definition hasSeparator :: "string \<Rightarrow> bool" where
  "hasSeparator s = (CHR '':'' \<in> set s)"

text \<open>The record \<open>getLogLevelFromString\<close> writes for a name it does not know.\<close>

definition unknownLevel :: "string \<Rightarrow> keyval list" where
  "unknownLevel levelName = levelError [S ''Unknown log level'', S ''level'', S levelName]"



text \<open>
  The first error the elements of a list answer, and the elements up to and with the
  first that answers an error.
\<close>

definition firstError :: "('a \<Rightarrow> error option) \<Rightarrow> 'a list \<Rightarrow> error option" where
  "firstError f ls = (case List.find (\<lambda>l. f l \<noteq> None) ls of None \<Rightarrow> None | Some l \<Rightarrow> f l)"

fun uptoFirstError :: "('a \<Rightarrow> error option) \<Rightarrow> 'a list \<Rightarrow> 'a list" where
  "uptoFirstError f [] = []"
| "uptoFirstError f (l # ls) = (if f l \<noteq> None then [l] else l # uptoFirstError f ls)"

text \<open>
  Example inputs. A file writer with the default settings; surroundings in which nothing
  fails; surroundings in which closing and reloading the writers of \<open>b.log\<close> and \<open>c.log\<close>
  fail; a state with three registered file writers.
\<close>

definition exWriter :: "string \<Rightarrow> FileLogWriter" where
  "exWriter name =
     \<lparr>Filename = name, Format = Logfmt, Rotate = True, Maxlines = 1000000,
      Maxsize = 268435456, Daily = True, Maxdays = 7\<rparr>"

definition exEnv :: env where
  "exEnv =
     \<lparr>isTerminal = False,
      MkdirAll = (\<lambda>_. None),
      fileInit = (\<lambda>_. None),
      handlerClose = (\<lambda>_. None),
      handlerReload = (\<lambda>_. None),
      filepathJoin = (\<lambda>dir name. dir @ ''/'' @ name),
      filepathDir = (\<lambda>_. ''/var/log/grafana''),
      unicodeToLower = (\<lambda>s. s)\<rparr>"

definition exFailEnv :: env where
  "exFailEnv =
     exEnv\<lparr>handlerClose :=
             (\<lambda>l. if l = FileLogger (exWriter ''b.log'') then Some (ExternalError ''close b'')
                  else if l = FileLogger (exWriter ''c.log'') then Some (ExternalError ''close c'')
                  else None),
           handlerReload :=
             (\<lambda>l. if l = FileLogger (exWriter ''b.log'') then Some (ExternalError ''reload b'')
                  else if l = FileLogger (exWriter ''c.log'') then Some (ExternalError ''reload c'')
                  else None)\<rparr>"

definition exThree :: state where
  "exThree =
     init\<lparr>loggersToClose :=
            [FileLogger (exWriter ''a.log''), FileLogger (exWriter ''b.log''),
             FileLogger (exWriter ''c.log'')],
          loggersToReload :=
            [FileLogger (exWriter ''a.log''), FileLogger (exWriter ''b.log''),
             FileLogger (exWriter ''c.log'')]\<rparr>"

text \<open>The mode a logger was made for, and the modes the \<open>switch\<close> of the loop knows.\<close>

fun kindOf :: "logger \<Rightarrow> string" where
  "kindOf (ConsoleLogger f) = ''console''"
| "kindOf (FileLogger w) = ''file''"
| "kindOf (SyslogLogger f) = ''syslog''"
| "kindOf (With l kvs) = kindOf l"
| "kindOf (NewFilter l opt) = kindOf l"

definition recognized :: "string \<Rightarrow> bool" where
  "recognized mode = (mode = ''console'' \<or> mode = ''file'' \<or> mode = ''syslog'')"

text \<open>
  The filter tables \<open>ReadLoggingConfig\<close> parses: the default table of the section \<open>log\<close>
  and the own table of a mode's section. A logger is closable when it is not the console
  logger.
\<close>

definition defaultTable :: "ini_File \<Rightarrow> filterMap" where
  "defaultTable cfg = fst (getFilters (KeySplitString cfg ''log'' ''filters'') [])"

definition modeTable :: "ini_File \<Rightarrow> string \<Rightarrow> filterMap" where
  "modeTable cfg m = fst (getFilters (KeySplitString cfg (''log.'' @ TrimSpace m) ''filters'') [])"

definition closable :: "logger \<Rightarrow> bool" where
  "closable l = (kindOf l \<noteq> ''console'')"

text \<open>
  A configuration with the sections \<open>log\<close>, \<open>log.console\<close>, \<open>log.file\<close> and \<open>log.syslog\<close>:
  no level in \<open>log\<close> (so \<open>info\<close>), level \<open>debug\<close> for \<open>file\<close>, the default filter \<open>x:warn\<close>,
  and a filter for \<open>z\<close> in both \<open>log.console\<close> and \<open>log.file\<close>.
\<close>

definition exCfg :: ini_File where
  "exCfg =
     \<lparr>GetSection =
        (\<lambda>sec. sec = ''log'' \<or> sec = ''log.console'' \<or> sec = ''log.file'' \<or> sec = ''log.syslog''),
      KeyString = (\<lambda>sec key. if sec = ''log.file'' \<and> key = ''level'' then ''debug'' else []),
      KeySplitString =
        (\<lambda>sec key.
           if key = ''filters'' then
             (if sec = ''log'' then [''x:warn'']
              else if sec = ''log.console'' then [''z:error'']
              else if sec = ''log.file'' then [''z:debug'', ''x:error'']
              else [])
           else []),
      KeyBool = (\<lambda>sec key. None),
      KeyInt = (\<lambda>sec key. None)\<rparr>"

text \<open>The handlers \<open>ReadLoggingConfig\<close> makes from \<open>exCfg\<close> for the modes \<open>console\<close> and \<open>file\<close>.\<close>

definition exConsole :: LogWithFilters where
  "exConsole =
     \<lparr>val = ConsoleLogger Logfmt,
      filters = [(''z'', AllowError), (''x'', AllowWarn)],
      maxLevel = AllowInfo\<rparr>"

definition exFileWriter :: FileLogWriter where
  "exFileWriter =
     \<lparr>Filename = ''/var/log/grafana/grafana.log'', Format = Logfmt, Rotate = True,
      Maxlines = 1000000, Maxsize = 268435456, Daily = True, Maxdays = 7\<rparr>"

definition exFile :: LogWithFilters where
  "exFile =
     \<lparr>val = FileLogger exFileWriter,
      filters = [(''z'', AllowDebug), (''x'', AllowError)],
      maxLevel = AllowDebug\<rparr>"

text \<open>The state after \<open>init()\<close> and a load of the mode \<open>console\<close> from \<open>exCfg\<close>.\<close>

definition exLoaded1 :: state where
  "exLoaded1 =
     init\<lparr>globalFilters := [(''z'', AllowError), (''x'', AllowWarn)],
          Root := \<lparr>loggers = [exConsole]\<rparr>\<rparr>"

text \<open>The state after a second load, of the mode \<open>file\<close> alone.\<close>

definition exLoaded2 :: state where
  "exLoaded2 =
     exLoaded1\<lparr>loggersToClose := [FileLogger exFileWriter],
               loggersToReload := [FileLogger exFileWriter],
               Root := \<lparr>loggers = [exConsole, exFile]\<rparr>\<rparr>"

text \<open>Surroundings in which every \<open>Close\<close> of a handler fails.\<close>

definition exCloseFails :: env where
  "exCloseFails = exEnv\<lparr>handlerClose := (\<lambda>l. Some (ExternalError ''close failed''))\<rparr>"

text \<open>The outermost \<open>level.NewFilter\<close> of a logger, and the writer under its wrappers.\<close>

fun boundLevel :: "logger \<Rightarrow> level_option option" where
  "boundLevel (NewFilter l opt) = Some opt"
| "boundLevel l = None"

fun sinkOf :: "logger \<Rightarrow> logger" where
  "sinkOf (With l kvs) = sinkOf l"
| "sinkOf (NewFilter l opt) = sinkOf l"
| "sinkOf l = l"

text \<open>What \<open>New\<close> makes of one entry of \<open>Root.loggers\<close>.\<close>

definition bound :: "string \<Rightarrow> keyval list \<Rightarrow> LogWithFilters \<Rightarrow> LogWithFilters" where
  "bound logger ctx lwf =
     lwf\<lparr>val :=
           NewFilter (With (val lwf) [L (S ''logger'' # S logger # ctx)])
             (case map_of (filters lwf) logger of Some v \<Rightarrow> v | None \<Rightarrow> maxLevel lwf)\<rparr>"

text \<open>A configuration like \<open>exCfg\<close> whose section \<open>log.file\<close> has the filter \<open>auth:error\<close>.\<close>

definition exCfgAuth :: ini_File where
  "exCfgAuth =
     exCfg\<lparr>KeySplitString :=
             (\<lambda>sec key. if sec = ''log.file'' \<and> key = ''filters'' then [''auth:error''] else [])\<rparr>"

text \<open>The mode name \<open>console\<close> followed by a no-break space (U+00A0).\<close>

definition exNbspMode :: string where
  "exNbspMode = ''console'' @ [CHR 0xC2, CHR 0xA0]"

text \<open>A configuration in which every section exists.\<close>

definition exCfgAll :: ini_File where
  "exCfgAll = exCfg\<lparr>GetSection := (\<lambda>sec. True)\<rparr>"

text \<open>A configuration of the mode \<open>file\<close> alone, with the file name given.\<close>

definition exCfgFile :: "string \<Rightarrow> ini_File" where
  "exCfgFile name =
     \<lparr>GetSection = (\<lambda>sec. sec = ''log'' \<or> sec = ''log.file''),
      KeyString = (\<lambda>sec key. if sec = ''log.file'' \<and> key = ''file_name'' then name else []),
      KeySplitString = (\<lambda>sec key. []),
      KeyBool = (\<lambda>sec key. None),
      KeyInt = (\<lambda>sec key. None)\<rparr>"

text \<open>The handler \<open>ReadLoggingConfig\<close> makes from \<open>exCfgFile name\<close>.\<close>

definition exHandle :: "string \<Rightarrow> LogWithFilters" where
  "exHandle name = \<lparr>val = FileLogger (exWriter name), filters = [], maxLevel = AllowInfo\<rparr>"

text \<open>
  The state after \<open>init()\<close>, a load of \<open>file\<close> writing to \<open>a.log\<close> and a second load of
  \<open>file\<close> writing to \<open>b.log\<close>: the writer of \<open>a.log\<close> is closed and still reloadable.
\<close>

definition exStale :: state where
  "exStale =
     \<lparr>llog = [],
      loggersToClose = [FileLogger (exWriter ''b.log'')],
      loggersToReload = [FileLogger (exWriter ''a.log''), FileLogger (exWriter ''b.log'')],
      globalFilters = [],
      Root = \<lparr>loggers = [exHandle ''a.log'', exHandle ''b.log'']\<rparr>,
      calls = [CloseCall (FileLogger (exWriter ''a.log''))]\<rparr>"

text \<open>Surroundings in which the \<open>Reload\<close> of the writer of \<open>a.log\<close> fails.\<close>

definition exReloadFails :: env where
  "exReloadFails =
     exEnv\<lparr>handlerReload :=
             (\<lambda>l. if l = FileLogger (exWriter ''a.log'') then Some (ExternalError ''reload a'')
                  else None)\<rparr>"

section \<open>Properties\<close>

lemma Split_nonempty: "Split s c \<noteq> []"
  by (induction s) (auto split: list.splits)

lemma Split_length: "(1 < length (Split s c)) = (c \<in> set s)"
proof (induction s)
  case Nil
  then show ?case by simp
next
  case (Cons x s)
  then show ?case using Split_nonempty[of s c]
    by (cases "Split s c") auto
qed

lemma Split_unfold:
  "Split s c =
     takeWhile (\<lambda>x. x \<noteq> c) s #
       (if c \<in> set s then Split (tl (dropWhile (\<lambda>x. x \<noteq> c) s)) c else [])"
proof (induction s)
  case Nil
  then show ?case by simp
next
  case (Cons x s)
  show ?case
  proof (cases "x = c")
    case True
    then show ?thesis by simp
  next
    case False
    then show ?thesis using Cons.IH by (cases "Split s c") auto
  qed
qed

lemma Split_0: "Split s c ! 0 = takeWhile (\<lambda>x. x \<noteq> c) s"
  by (subst Split_unfold) simp

lemma Split_1:
  "c \<in> set s \<Longrightarrow>
   Split s c ! 1 = takeWhile (\<lambda>x. x \<noteq> c) (tl (dropWhile (\<lambda>x. x \<noteq> c) s))"
  by (subst Split_unfold, simp, subst Split_unfold, simp)

lemma getLogLevelFromString_fst:
  "fst (getLogLevelFromString n lg) = fst (getLogLevelFromString n [])"
  by (simp add: getLogLevelFromString_def split: option.splits)

lemma getLogLevelFromString_snd:
  "snd (getLogLevelFromString n lg) = lg @ (if logLevels n = None then [unknownLevel n] else [])"
  by (simp add: getLogLevelFromString_def unknownLevel_def split: option.splits)

lemma getFilters_loop_step:
  "getFilters_loop (s # rest) m lg =
     (if hasSeparator s then
        getFilters_loop rest
          (AList.update (filterName s) (fst (getLogLevelFromString (filterLevelName s) [])) m)
          (lg @ (if logLevels (filterLevelName s) = None then [unknownLevel (filterLevelName s)] else []))
      else getFilters_loop rest m lg)"
proof (cases "hasSeparator s")
  case True
  then have c: "CHR '':'' \<in> set s" by (simp add: hasSeparator_def)
  obtain lv lg' where g: "getLogLevelFromString (filterLevelName s) lg = (lv, lg')"
    by (cases "getLogLevelFromString (filterLevelName s) lg")
  have lv: "lv = fst (getLogLevelFromString (filterLevelName s) [])"
    using g getLogLevelFromString_fst[of "filterLevelName s" lg] by simp
  have lg': "lg' = lg @ (if logLevels (filterLevelName s) = None then [unknownLevel (filterLevelName s)] else [])"
    using g getLogLevelFromString_snd[of "filterLevelName s" lg] by simp
  from c have l: "1 < length (Split s CHR '':'')"
    using Split_length[of s "CHR '':''"] by blast
  have p0: "Split s CHR '':'' ! 0 = filterName s" by (simp add: Split_0 filterName_def)
  have p1: "Split s CHR '':'' ! 1 = filterLevelName s"
    using c Split_1[of "CHR '':''" s] by (simp add: filterLevelName_def)
  show ?thesis
    using True l g
    by (simp only: getFilters_loop.simps Let_def p0 p1 if_True split lv[symmetric] lg'[symmetric])
next
  case False
  then have "\<not> 1 < length (Split s CHR '':'')"
    using Split_length[of s "CHR '':''"] by (simp add: hasSeparator_def)
  with False show ?thesis by (simp add: Let_def)
qed





lemma getFilters_loop_fst_indep:
  "fst (getFilters_loop strs m lg) = fst (getFilters_loop strs m lg')"
proof (induction strs arbitrary: m lg lg')
  case Nil
  then show ?case by simp
next
  case (Cons s strs)
  show ?case
    by (simp only: getFilters_loop_step split: if_splits) (auto intro: Cons.IH)
qed

lemma getFilters_fst_indep: "fst (getFilters strs lg) = fst (getFilters strs [])"
  unfolding getFilters_def by (rule getFilters_loop_fst_indep)




lemma Close_loop_eq:
  "Close_loop ev ls err cs =
     (case err of Some e \<Rightarrow> Some e | None \<Rightarrow> firstError (handlerClose ev) ls,
      cs @ map CloseCall ls)"
  by (induction ls arbitrary: err cs) (auto simp: firstError_def Let_def split: option.splits)

lemma Close_eq:
  "Close ev st =
     (firstError (handlerClose ev) (loggersToClose st),
      st\<lparr>loggersToClose := [], calls := calls st @ map CloseCall (loggersToClose st)\<rparr>)"
  by (simp add: Close_def Close_loop_eq)

lemma Reload_loop_eq:
  "Reload_loop ev ls cs =
     (firstError (handlerReload ev) ls, cs @ map ReloadCall (uptoFirstError (handlerReload ev) ls))"
  by (induction ls arbitrary: cs) (auto simp: firstError_def split: option.splits)

lemma Reload_eq:
  "Reload ev st =
     (firstError (handlerReload ev) (loggersToReload st),
      st\<lparr>calls := calls st @
             map ReloadCall (uptoFirstError (handlerReload ev) (loggersToReload st))\<rparr>)"
  by (simp add: Reload_def Reload_loop_eq)

lemma Reload_loop_ok:
  "\<forall>l\<in>set ls. handlerReload ev l = None \<Longrightarrow>
   Reload_loop ev ls cs = (None, cs @ map ReloadCall ls)"
  by (induction ls arbitrary: cs) auto

lemma Reload_loop_fail:
  "k < length ls \<Longrightarrow> handlerReload ev (ls ! k) = Some e \<Longrightarrow>
   \<forall>i<k. handlerReload ev (ls ! i) = None \<Longrightarrow>
   Reload_loop ev ls cs = (Some e, cs @ map ReloadCall (take (Suc k) ls))"
proof (induction ls arbitrary: k cs)
  case Nil
  then show ?case by simp
next
  case (Cons l ls)
  show ?case
  proof (cases k)
    case 0
    with Cons.prems show ?thesis by simp
  next
    case (Suc j)
    from Cons.prems Suc have h0: "handlerReload ev l = None" by auto
    from Cons.prems Suc have "j < length ls" "handlerReload ev (ls ! j) = Some e"
      "\<forall>i<j. handlerReload ev (ls ! i) = None" by auto
    from Cons.IH[OF this] h0 Suc show ?thesis by simp
  qed
qed

lemma copyAbsent_map_of: "map_of (copyAbsent src dst) = map_of src ++ map_of dst"
proof (induction src arbitrary: dst)
  case Nil
  then show ?case by simp
next
  case (Cons kv src)
  obtain k v where kv: "kv = (k, v)" by (cases kv)
  show ?case
    unfolding kv
    by (auto simp: Cons.IH update_conv map_add_def fun_eq_iff split: option.splits)
qed

lemma copyAbsent_distinct:
  "distinct (map fst dst) \<Longrightarrow> distinct (map fst (copyAbsent src dst))"
proof (induction src arbitrary: dst)
  case Nil
  then show ?case by simp
next
  case (Cons kv src)
  obtain k v where kv: "kv = (k, v)" by (cases kv)
  show ?case
    unfolding kv using Cons.prems by (simp add: Cons.IH distinct_update)
qed

text \<open>
  C9. \<open>Close\<close> calls \<open>Close\<close> on every handler of \<open>loggersToClose\<close>, in order, whatever
  the earlier calls answered; it returns the first error met (\<open>nil\<close> when there is none)
  and leaves \<open>loggersToClose\<close> empty. With no closable handler it returns \<open>nil\<close> and
  changes nothing, so a second \<open>Close\<close> right after a first is a no-op.
\<close>

theorem Close_best_effort:
  "Close ev st =
     (firstError (handlerClose ev) (loggersToClose st),
      st\<lparr>loggersToClose := [], calls := calls st @ map CloseCall (loggersToClose st)\<rparr>)
   \<and> Close ev (st\<lparr>loggersToClose := []\<rparr>) = (None, st\<lparr>loggersToClose := []\<rparr>)
   \<and> Close ev (snd (Close ev st)) = (None, snd (Close ev st))"
  by (simp add: Close_eq firstError_def)

theorem Close_best_effort_witness:
  "Close exFailEnv exThree =
     (Some (ExternalError ''close b''),
      exThree\<lparr>loggersToClose := [],
              calls := [CloseCall (FileLogger (exWriter ''a.log'')),
                        CloseCall (FileLogger (exWriter ''b.log'')),
                        CloseCall (FileLogger (exWriter ''c.log''))]\<rparr>)
   \<and> Close exFailEnv init = (None, init)
   \<and> Close exFailEnv (snd (Close exFailEnv exThree)) = (None, snd (Close exFailEnv exThree))"
proof -
  have a: "handlerClose exFailEnv (FileLogger (exWriter ''a.log'')) = None"
    by (simp add: exFailEnv_def exEnv_def exWriter_def)
  have b: "handlerClose exFailEnv (FileLogger (exWriter ''b.log'')) = Some (ExternalError ''close b'')"
    by (simp add: exFailEnv_def exEnv_def)
  have e: "firstError (handlerClose exFailEnv) (loggersToClose exThree) =
             Some (ExternalError ''close b'')"
    by (simp add: firstError_def exThree_def init_def a b)
  have i: "init\<lparr>loggersToClose := []\<rparr> = init"
    by (simp add: init_def)
  have 1: "Close exFailEnv exThree =
     (Some (ExternalError ''close b''),
      exThree\<lparr>loggersToClose := [],
              calls := calls exThree @ map CloseCall (loggersToClose exThree)\<rparr>)"
    using conjunct1[OF Close_best_effort[of exFailEnv exThree]] by (simp only: e)
  have 3: "Close exFailEnv (snd (Close exFailEnv exThree)) = (None, snd (Close exFailEnv exThree))"
    by (rule conjunct2[OF conjunct2[OF Close_best_effort[of exFailEnv exThree]]])
  have 2: "Close exFailEnv init = (None, init)"
    using conjunct1[OF conjunct2[OF Close_best_effort[of exFailEnv init]]] by (simp only: i)
  have c: "calls exThree @ map CloseCall (loggersToClose exThree) =
             [CloseCall (FileLogger (exWriter ''a.log'')),
              CloseCall (FileLogger (exWriter ''b.log'')),
              CloseCall (FileLogger (exWriter ''c.log''))]"
    by (simp add: exThree_def init_def)
  from 1 2 3 show ?thesis
    unfolding c by blast
qed

text \<open>
  C8. \<open>Reload\<close> is fail-fast: when the handler at position \<open>k\<close> of \<open>loggersToReload\<close> is
  the first whose \<open>Reload\<close> fails, \<open>Reload\<close> returns that handler's error after calling
  exactly the handlers at positions \<open>0..k\<close>, in order, and none after; when no handler
  fails it calls all of them and returns \<open>nil\<close>.
\<close>

theorem Reload_fail_fast:
  "(k < length (loggersToReload st) \<and>
    handlerReload ev (loggersToReload st ! k) = Some e \<and>
    (\<forall>i<k. handlerReload ev (loggersToReload st ! i) = None)
    \<longrightarrow> Reload ev st =
          (Some e, st\<lparr>calls := calls st @ map ReloadCall (take (Suc k) (loggersToReload st))\<rparr>))
   \<and> ((\<forall>l\<in>set (loggersToReload st). handlerReload ev l = None)
    \<longrightarrow> Reload ev st = (None, st\<lparr>calls := calls st @ map ReloadCall (loggersToReload st)\<rparr>))"
proof (intro conjI impI)
  assume "k < length (loggersToReload st) \<and>
    handlerReload ev (loggersToReload st ! k) = Some e \<and>
    (\<forall>i<k. handlerReload ev (loggersToReload st ! i) = None)"
  then have "Reload_loop ev (loggersToReload st) (calls st) =
      (Some e, calls st @ map ReloadCall (take (Suc k) (loggersToReload st)))"
    by (intro Reload_loop_fail) simp_all
  then show "Reload ev st =
      (Some e, st\<lparr>calls := calls st @ map ReloadCall (take (Suc k) (loggersToReload st))\<rparr>)"
    by (simp add: Reload_def)
next
  assume "\<forall>l\<in>set (loggersToReload st). handlerReload ev l = None"
  then have "Reload_loop ev (loggersToReload st) (calls st) =
      (None, calls st @ map ReloadCall (loggersToReload st))"
    by (rule Reload_loop_ok)
  then show "Reload ev st = (None, st\<lparr>calls := calls st @ map ReloadCall (loggersToReload st)\<rparr>)"
    by (simp add: Reload_def)
qed

theorem Reload_fail_fast_witness:
  "Reload exFailEnv exThree =
     (Some (ExternalError ''reload b''),
      exThree\<lparr>calls := [ReloadCall (FileLogger (exWriter ''a.log'')),
                        ReloadCall (FileLogger (exWriter ''b.log''))]\<rparr>)
   \<and> Reload exEnv exThree =
     (None,
      exThree\<lparr>calls := [ReloadCall (FileLogger (exWriter ''a.log'')),
                        ReloadCall (FileLogger (exWriter ''b.log'')),
                        ReloadCall (FileLogger (exWriter ''c.log''))]\<rparr>)"
proof -
  have k: "1 < length (loggersToReload exThree)"
    by (simp add: exThree_def init_def)
  have f: "handlerReload exFailEnv (loggersToReload exThree ! 1) = Some (ExternalError ''reload b'')"
    by (simp add: exThree_def init_def exFailEnv_def exEnv_def exWriter_def)
  have b: "\<forall>i<1. handlerReload exFailEnv (loggersToReload exThree ! i) = None"
    by (simp add: exThree_def init_def exFailEnv_def exEnv_def exWriter_def)
  have n: "\<forall>l\<in>set (loggersToReload exThree). handlerReload exEnv l = None"
    by (simp add: exEnv_def)
  from Reload_fail_fast[of 1 exThree exFailEnv "ExternalError ''reload b''"] k f b
  have r1: "Reload exFailEnv exThree =
      (Some (ExternalError ''reload b''),
       exThree\<lparr>calls := calls exThree @ map ReloadCall (take (Suc 1) (loggersToReload exThree))\<rparr>)"
    by blast
  from Reload_fail_fast[of 0 exThree exEnv undefined] n
  have r2: "Reload exEnv exThree =
      (None, exThree\<lparr>calls := calls exThree @ map ReloadCall (loggersToReload exThree)\<rparr>)"
    by blast
  show ?thesis
    unfolding r1 r2 by (simp add: exThree_def init_def)
qed

lemma kindOf_recognized: "recognized (kindOf l)"
  by (induction l) (simp_all add: recognized_def)

lemma newHandler_frame:
  "newHandler ev cfg lp sec mode fmt st = (r, st') \<Longrightarrow>
   Root st' = Root st \<and> globalFilters st' = globalFilters st \<and> calls st' = calls st"
  by (auto simp: newHandler_def Let_def split: if_splits option.splits)

lemma newHandler_Some:
  "newHandler ev cfg lp sec mode fmt st = (Inr (Some v), st') \<Longrightarrow>
   kindOf v = mode \<and> llog st' = llog st
   \<and> loggersToClose st' = loggersToClose st @ (if mode = ''console'' then [] else [v])
   \<and> loggersToReload st' = loggersToReload st @ (if mode = ''file'' then [v] else [])"
  by (auto simp: newHandler_def Let_def split: if_splits option.splits)

lemma newHandler_unrecognized:
  "\<not> recognized mode \<Longrightarrow> newHandler ev cfg lp sec mode fmt st = (Inr None, st)"
  by (simp add: newHandler_def recognized_def)

lemma newHandler_None:
  "newHandler ev cfg lp sec mode fmt st = (Inr None, st') \<Longrightarrow> \<not> recognized mode \<and> st' = st"
  by (auto simp: newHandler_def recognized_def Let_def split: if_splits option.splits)

lemma joinFilters_fst: "map_of (fst (joinFilters D M G)) = map_of D ++ map_of M"
  by (simp add: joinFilters_def Let_def copyAbsent_map_of)

lemma joinFilters_snd: "map_of (snd (joinFilters D M G)) = (map_of D ++ map_of M) ++ map_of G"
  by (simp add: joinFilters_def Let_def copyAbsent_map_of)

lemma loadModes_no_section:
  "\<not> GetSection cfg (''log.'' @ TrimSpace m) \<Longrightarrow>
   loadModes ev cfg lp dln D (m # rest) st =
     (Returned (Some (Wrapf (SectionNotExist (''log.'' @ TrimSpace m))
                        ''failed to get config section log.%s'' [TrimSpace m])),
      st\<lparr>llog := llog st @ [levelError [S ''Unknown log mode'', S ''mode'', S (TrimSpace m)]]\<rparr>)"
  by (simp add: Let_def)

lemma loadModes_unrecognized:
  "GetSection cfg (''log.'' @ TrimSpace m) \<Longrightarrow> \<not> recognized (TrimSpace m) \<Longrightarrow>
   loadModes ev cfg lp dln D (m # rest) st =
     (Panicked ''Handler is uninitialized for mode %q'' [TrimSpace m],
      st\<lparr>llog :=
           snd (getFilters (KeySplitString cfg (''log.'' @ TrimSpace m) ''filters'')
                  (snd (snd (getLogLevelFromConfig ev (''log.'' @ TrimSpace m) dln cfg (llog st)))))\<rparr>)"
  by (simp add: Let_def newHandler_unrecognized split: prod.splits)

lemma loadModes_success:
  "loadModes ev cfg lp dln D modes st = (Returned None, st') \<Longrightarrow>
   (\<exists>hs. loggers (Root st') = loggers (Root st) @ hs
         \<and> map (kindOf \<circ> val) hs = map TrimSpace modes)
   \<and> map_of (globalFilters st) \<subseteq>\<^sub>m map_of (globalFilters st')
   \<and> (\<exists>rs. loggersToReload st' = loggersToReload st @ rs)"
proof (induction modes arbitrary: st)
  case Nil
  then show ?case by simp
next
  case (Cons m modes)
  let ?mode = "TrimSpace m"
  let ?sec = "''log.'' @ ?mode"
  from Cons.prems have sec: "GetSection cfg ?sec"
    by (auto simp: Let_def split: if_splits)
  obtain levelName leveloption lg1 where
    lv: "getLogLevelFromConfig ev ?sec dln cfg (llog st) = (levelName, leveloption, lg1)"
    by (cases "getLogLevelFromConfig ev ?sec dln cfg (llog st)") auto
  obtain modeFilters lg2 where
    mf: "getFilters (KeySplitString cfg ?sec ''filters'') lg1 = (modeFilters, lg2)"
    by (cases "getFilters (KeySplitString cfg ?sec ''filters'') lg1")
  let ?fmt = "getLogFormat ev (MustString (KeyString cfg ?sec ''format'') [])"
  obtain r st1 where nh: "newHandler ev cfg lp ?sec ?mode ?fmt (st\<lparr>llog := lg2\<rparr>) = (r, st1)"
    by (cases "newHandler ev cfg lp ?sec ?mode ?fmt (st\<lparr>llog := lg2\<rparr>)")
  from Cons.prems sec lv mf nh obtain v where r: "r = Inr (Some v)"
    by (cases r) (auto simp: Let_def split: option.splits)
  obtain mf' fs where jf: "joinFilters D modeFilters (globalFilters st1) = (mf', fs)"
    by (cases "joinFilters D modeFilters (globalFilters st1)")
  let ?h = "\<lparr>val = v, filters = mf', maxLevel = leveloption\<rparr>"
  let ?st2 = "st1\<lparr>globalFilters := fs, Root := (Root st1)\<lparr>loggers := loggers (Root st1) @ [?h]\<rparr>\<rparr>"
  from Cons.prems sec lv mf nh r jf
  have rec: "loadModes ev cfg lp dln D modes ?st2 = (Returned None, st')"
    by (simp add: Let_def)
  note IH = Cons.IH[OF rec]
  from newHandler_frame[OF nh] have fr: "Root st1 = Root st" "globalFilters st1 = globalFilters st"
    by simp_all
  from newHandler_Some[OF nh[unfolded r]]
  have k: "kindOf v = ?mode"
    and rl: "loggersToReload st1 = loggersToReload st @ (if ?mode = ''file'' then [v] else [])"
    by simp_all
  from IH obtain hs where
    hs: "loggers (Root st') = loggers (Root ?st2) @ hs"
        "map (kindOf \<circ> val) hs = map TrimSpace modes"
    by blast
  have 1: "loggers (Root st') = loggers (Root st) @ (?h # hs)"
    using hs(1) fr by simp
  have 2: "map (kindOf \<circ> val) (?h # hs) = map TrimSpace (m # modes)"
    using hs(2) k by simp
  have "map_of fs = (map_of D ++ map_of modeFilters) ++ map_of (globalFilters st)"
    using joinFilters_snd[of D modeFilters "globalFilters st1", unfolded jf] by (simp add: fr)
  then have g1: "map_of (globalFilters st) \<subseteq>\<^sub>m map_of fs"
    by (simp only: map_le_map_add)
  from IH have g2: "map_of fs \<subseteq>\<^sub>m map_of (globalFilters st')"
    by simp
  from IH obtain rs where "loggersToReload st' = loggersToReload ?st2 @ rs"
    by blast
  then have 3: "loggersToReload st' = loggersToReload st @ ((if ?mode = ''file'' then [v] else []) @ rs)"
    using rl by simp
  from 1 2 g1 g2 3 show ?case
    by (blast intro: map_le_trans)
qed

lemma newHandler_Inl:
  "newHandler ev cfg lp sec mode fmt st = (Inl e, st') \<Longrightarrow>
   loggersToClose st' = loggersToClose st \<and> loggersToReload st' = loggersToReload st"
  by (auto simp: newHandler_def Let_def split: if_splits option.splits)

lemma loadModes_lists:
  "loadModes ev cfg lp dln D modes st = (r, st') \<Longrightarrow>
   (\<exists>hs. loggers (Root st') = loggers (Root st) @ hs
        \<and> loggersToClose st' = loggersToClose st @ filter closable (map val hs))
   \<and> calls st' = calls st"
proof (induction modes arbitrary: st)
  case Nil
  then show ?case by simp
next
  case (Cons m modes)
  let ?mode = "TrimSpace m"
  let ?sec = "''log.'' @ ?mode"
  show ?case
  proof (cases "GetSection cfg ?sec")
    case False
    with Cons.prems show ?thesis
      by (auto simp: Let_def)
  next
    case sec: True
    obtain levelName leveloption lg1 where
      lv: "getLogLevelFromConfig ev ?sec dln cfg (llog st) = (levelName, leveloption, lg1)"
      by (cases "getLogLevelFromConfig ev ?sec dln cfg (llog st)") auto
    obtain modeFilters lg2 where
      mf: "getFilters (KeySplitString cfg ?sec ''filters'') lg1 = (modeFilters, lg2)"
      by (cases "getFilters (KeySplitString cfg ?sec ''filters'') lg1")
    let ?fmt = "getLogFormat ev (MustString (KeyString cfg ?sec ''format'') [])"
    obtain x st1 where nh: "newHandler ev cfg lp ?sec ?mode ?fmt (st\<lparr>llog := lg2\<rparr>) = (x, st1)"
      by (cases "newHandler ev cfg lp ?sec ?mode ?fmt (st\<lparr>llog := lg2\<rparr>)")
    from newHandler_frame[OF nh] have fr: "Root st1 = Root st" "calls st1 = calls st"
      by simp_all
    show ?thesis
    proof (cases x)
      case (Inl e)
      from Cons.prems sec lv mf nh Inl have "st' = st1"
        by (simp add: Let_def)
      moreover from newHandler_Inl[OF nh[unfolded Inl]]
      have "loggersToClose st1 = loggersToClose st"
        by simp
      ultimately show ?thesis
        using fr by simp
    next
      case (Inr ov)
      show ?thesis
      proof (cases ov)
        case None
        from Cons.prems sec lv mf nh Inr None have "st' = st1"
          by (simp add: Let_def)
        moreover from newHandler_None[OF nh[unfolded Inr None]]
        have "st1 = st\<lparr>llog := lg2\<rparr>"
          by simp
        ultimately show ?thesis
          by simp
      next
        case (Some v)
        obtain mf' fs where jf: "joinFilters D modeFilters (globalFilters st1) = (mf', fs)"
          by (cases "joinFilters D modeFilters (globalFilters st1)")
        let ?h = "\<lparr>val = v, filters = mf', maxLevel = leveloption\<rparr>"
        let ?st2 = "st1\<lparr>globalFilters := fs,
                       Root := (Root st1)\<lparr>loggers := loggers (Root st1) @ [?h]\<rparr>\<rparr>"
        from Cons.prems sec lv mf nh Inr Some jf
        have rec: "loadModes ev cfg lp dln D modes ?st2 = (r, st')"
          by (simp add: Let_def)
        from Cons.IH[OF rec] obtain hs where
          hs: "loggers (Root st') = loggers (Root ?st2) @ hs"
              "loggersToClose st' = loggersToClose ?st2 @ filter closable (map val hs)"
          and c: "calls st' = calls ?st2"
          by blast
        from newHandler_Some[OF nh[unfolded Inr Some]]
        have k: "kindOf v = ?mode"
          and cl: "loggersToClose st1 = loggersToClose st @ (if ?mode = ''console'' then [] else [v])"
          by simp_all
        have 1: "loggers (Root st') = loggers (Root st) @ (?h # hs)"
          using hs(1) fr by simp
        have 2: "loggersToClose st' = loggersToClose st @ filter closable (map val (?h # hs))"
          using hs(2) cl k by (simp add: closable_def)
        from 1 2 c fr show ?thesis
          by (intro conjI exI[of _ "?h # hs"]) simp_all
      qed
    qed
  qed
qed

lemma loadModes_filters:
  "loadModes ev cfg lp dln D modes st = (Returned None, st') \<Longrightarrow>
   \<exists>hs. loggers (Root st') = loggers (Root st) @ hs
       \<and> map (\<lambda>h. map_of (filters h)) hs = map (\<lambda>m. map_of D ++ map_of (modeTable cfg m)) modes
       \<and> map_of (globalFilters st') =
           foldl (\<lambda>g h. map_of (filters h) ++ g) (map_of (globalFilters st)) hs"
proof (induction modes arbitrary: st)
  case Nil
  then show ?case by simp
next
  case (Cons m modes)
  let ?mode = "TrimSpace m"
  let ?sec = "''log.'' @ ?mode"
  from Cons.prems have sec: "GetSection cfg ?sec"
    by (auto simp: Let_def split: if_splits)
  obtain levelName leveloption lg1 where
    lv: "getLogLevelFromConfig ev ?sec dln cfg (llog st) = (levelName, leveloption, lg1)"
    by (cases "getLogLevelFromConfig ev ?sec dln cfg (llog st)") auto
  obtain modeFilters lg2 where
    mf: "getFilters (KeySplitString cfg ?sec ''filters'') lg1 = (modeFilters, lg2)"
    by (cases "getFilters (KeySplitString cfg ?sec ''filters'') lg1")
  have mt: "modeFilters = modeTable cfg m"
    using getFilters_fst_indep[of "KeySplitString cfg ?sec ''filters''" lg1] mf
    by (simp add: modeTable_def)
  let ?fmt = "getLogFormat ev (MustString (KeyString cfg ?sec ''format'') [])"
  obtain x st1 where nh: "newHandler ev cfg lp ?sec ?mode ?fmt (st\<lparr>llog := lg2\<rparr>) = (x, st1)"
    by (cases "newHandler ev cfg lp ?sec ?mode ?fmt (st\<lparr>llog := lg2\<rparr>)")
  from Cons.prems sec lv mf nh obtain v where x: "x = Inr (Some v)"
    by (cases x) (auto simp: Let_def split: option.splits)
  obtain mf' fs where jf: "joinFilters D modeFilters (globalFilters st1) = (mf', fs)"
    by (cases "joinFilters D modeFilters (globalFilters st1)")
  let ?h = "\<lparr>val = v, filters = mf', maxLevel = leveloption\<rparr>"
  let ?st2 = "st1\<lparr>globalFilters := fs, Root := (Root st1)\<lparr>loggers := loggers (Root st1) @ [?h]\<rparr>\<rparr>"
  from Cons.prems sec lv mf nh x jf
  have rec: "loadModes ev cfg lp dln D modes ?st2 = (Returned None, st')"
    by (simp add: Let_def)
  from newHandler_frame[OF nh] have fr: "Root st1 = Root st" "globalFilters st1 = globalFilters st"
    by simp_all
  have m1: "map_of mf' = map_of D ++ map_of (modeTable cfg m)"
    using joinFilters_fst[of D modeFilters "globalFilters st1", unfolded jf] by (simp add: mt)
  have g1: "map_of fs = map_of mf' ++ map_of (globalFilters st)"
    using joinFilters_snd[of D modeFilters "globalFilters st1", unfolded jf] m1
    by (simp add: fr mt)
  from Cons.IH[OF rec] obtain hs where
    hs: "loggers (Root st') = loggers (Root ?st2) @ hs"
        "map (\<lambda>h. map_of (filters h)) hs = map (\<lambda>m. map_of D ++ map_of (modeTable cfg m)) modes"
        "map_of (globalFilters st') =
           foldl (\<lambda>g h. map_of (filters h) ++ g) (map_of (globalFilters ?st2)) hs"
    by blast
  have 1: "loggers (Root st') = loggers (Root st) @ (?h # hs)"
    using hs(1) fr by simp
  have 2: "map (\<lambda>h. map_of (filters h)) (?h # hs) =
             map (\<lambda>m. map_of D ++ map_of (modeTable cfg m)) (m # modes)"
    using hs(2) m1 by simp
  have 3: "map_of (globalFilters st') =
             foldl (\<lambda>g h. map_of (filters h) ++ g) (map_of (globalFilters st)) (?h # hs)"
    using hs(3) g1 by simp
  from 1 2 3 show ?case
    by blast
qed






text \<open>
  C7. \<open>getLogLevelFromString\<close> looks the name up as it is written: the six lower-case
  names give the documented option and write nothing; every other name, a recognized
  name in upper or mixed case among them, gives \<open>AllowError\<close> and writes one
  \<open>Unknown log level\<close> record. Only \<open>getLogLevelFromConfig\<close> lowers the name first;
  \<open>getFilters\<close> does not.
\<close>

theorem getLogLevelFromString_exact:
  "getLogLevelFromString levelName lg =
     (if levelName = ''trace'' \<or> levelName = ''debug'' then (AllowDebug, lg)
      else if levelName = ''info'' then (AllowInfo, lg)
      else if levelName = ''warn'' then (AllowWarn, lg)
      else if levelName = ''error'' \<or> levelName = ''critical'' then (AllowError, lg)
      else (AllowError, lg @ [levelError [S ''Unknown log level'', S ''level'', S levelName]]))"
  by (simp add: getLogLevelFromString_def logLevels_def)

lemma getLogLevelFromConfig_lowers:
  "getLogLevelFromConfig ev key defaultName cfg lg =
     (ToLower (unicodeToLower ev) (MustString (KeyString cfg key ''level'') defaultName),
      getLogLevelFromString
        (ToLower (unicodeToLower ev) (MustString (KeyString cfg key ''level'') defaultName)) lg)"
  by (simp add: getLogLevelFromConfig_def Let_def split: prod.splits)

lemma ToLower_WARN: "ToLower f ''WARN'' = ''warn''"
  by (simp add: ToLower_def ToLower_char_def)

theorem getLogLevelFromString_exact_witness:
  "getLogLevelFromString ''WARN'' [] =
     (AllowError, [levelError [S ''Unknown log level'', S ''level'', S ''WARN'']])
   \<and> getFilters [''auth:WARN''] [] =
     ([(''auth'', AllowError)], [levelError [S ''Unknown log level'', S ''level'', S ''WARN'']])
   \<and> getLogLevelFromConfig exEnv ''log'' ''info'' (exCfg\<lparr>KeyString := \<lambda>sec key. ''WARN''\<rparr>) [] =
     (''warn'', AllowWarn, [])"
proof -
  have 1: "getLogLevelFromString ''WARN'' [] =
     (AllowError, [levelError [S ''Unknown log level'', S ''level'', S ''WARN'']])"
    using getLogLevelFromString_exact[of "''WARN''" "[]"] by simp
  have 2: "getLogLevelFromString ''warn'' [] = (AllowWarn, [])"
    using getLogLevelFromString_exact[of "''warn''" "[]"] by simp
  have 3: "getFilters [''auth:WARN''] [] =
     ([(''auth'', AllowError)], [levelError [S ''Unknown log level'', S ''level'', S ''WARN'']])"
    by (simp add: getFilters_def Let_def 1)
  have 4: "getLogLevelFromConfig exEnv ''log'' ''info'' (exCfg\<lparr>KeyString := \<lambda>sec key. ''WARN''\<rparr>) [] =
     (''warn'', AllowWarn, [])"
    by (simp add: getLogLevelFromConfig_lowers MustString_def ToLower_WARN 2)
  from 1 3 4 show ?thesis by blast
qed

lemma TrimSpace_console: "TrimSpace ''console'' = ''console''"
  by code_simp

lemma TrimSpace_file: "TrimSpace ''file'' = ''file''"
  by code_simp

lemma TrimSpace_bogus: "TrimSpace '' bogus '' = ''bogus''"
  by code_simp

lemmas eval_defs =
  ReadLoggingConfig_def Close_def init_def exEnv_def exCfg_def getLogLevelFromConfig_def
  getLogLevelFromString_def logLevels_def MustString_def MustBool_def MustInt_def
  ToLower_def ToLower_char_def getFilters_def TrimSpace_console TrimSpace_file TrimSpace_bogus
  getLogFormat_def newHandler_def joinFilters_def Let_def levelError_def

lemma exLoaded1_run:
  "ReadLoggingConfig exEnv [''console''] ''/var/log/grafana'' exCfg init = (Returned None, exLoaded1)"
  by (simp add: eval_defs exLoaded1_def exConsole_def)

lemma exLoaded2_run:
  "ReadLoggingConfig exEnv [''file''] ''/var/log/grafana'' exCfg exLoaded1 = (Returned None, exLoaded2)"
  by (simp add: eval_defs exLoaded1_def exLoaded2_def exConsole_def exFile_def exFileWriter_def)

lemma ReadLoggingConfig_close_fails:
  "fst (Close ev st) = Some err \<Longrightarrow>
   ReadLoggingConfig ev modes lp cfg st = (Returned (Some err), snd (Close ev st))"
  by (cases "Close ev st") (simp add: ReadLoggingConfig_def)

lemma ReadLoggingConfig_success:
  assumes "ReadLoggingConfig ev modes lp cfg st = (Returned None, st')"
  shows "fst (Close ev st) = None
    \<and> (\<exists>hs. loggers (Root st') = loggers (Root st) @ hs
          \<and> map (kindOf \<circ> val) hs = map TrimSpace modes)
    \<and> map_of (globalFilters st) \<subseteq>\<^sub>m map_of (globalFilters st')
    \<and> (\<exists>rs. loggersToReload st' = loggersToReload st @ rs)"
proof -
  obtain e st1 where c: "Close ev st = (e, st1)"
    by (cases "Close ev st")
  have e: "e = None"
  proof (cases e)
    case None
    then show ?thesis .
  next
    case (Some err)
    with c assms show ?thesis by (simp add: ReadLoggingConfig_def)
  qed
  from c have st1: "Root st1 = Root st" "globalFilters st1 = globalFilters st"
    "loggersToReload st1 = loggersToReload st"
    by (auto simp: Close_eq)
  obtain dln lv lg1 where d: "getLogLevelFromConfig ev ''log'' ''info'' cfg (llog st1) = (dln, lv, lg1)"
    by (cases "getLogLevelFromConfig ev ''log'' ''info'' cfg (llog st1)") auto
  obtain D lg2 where f: "getFilters (KeySplitString cfg ''log'' ''filters'') lg1 = (D, lg2)"
    by (cases "getFilters (KeySplitString cfg ''log'' ''filters'') lg1")
  from assms c e d f have "loadModes ev cfg lp dln D modes (st1\<lparr>llog := lg2\<rparr>) = (Returned None, st')"
    by (simp add: ReadLoggingConfig_def)
  from loadModes_success[OF this] st1 c e show ?thesis
    by simp
qed

lemma ReadLoggingConfig_lists:
  "(\<exists>hs. loggers (Root (snd (ReadLoggingConfig ev modes lp cfg st))) = loggers (Root st) @ hs
        \<and> loggersToClose (snd (ReadLoggingConfig ev modes lp cfg st)) =
            filter closable (map val hs))
   \<and> calls (snd (ReadLoggingConfig ev modes lp cfg st)) =
       calls st @ map CloseCall (loggersToClose st)"
proof (cases "firstError (handlerClose ev) (loggersToClose st)")
  case (Some err)
  then have "ReadLoggingConfig ev modes lp cfg st =
      (Returned (Some err),
       st\<lparr>loggersToClose := [], calls := calls st @ map CloseCall (loggersToClose st)\<rparr>)"
    by (simp add: ReadLoggingConfig_def Close_eq)
  then show ?thesis
    by simp
next
  case None
  let ?st1 = "st\<lparr>loggersToClose := [], calls := calls st @ map CloseCall (loggersToClose st)\<rparr>"
  obtain dln lv lg1 where
    d: "getLogLevelFromConfig ev ''log'' ''info'' cfg (llog ?st1) = (dln, lv, lg1)"
    by (cases "getLogLevelFromConfig ev ''log'' ''info'' cfg (llog ?st1)") auto
  obtain D lg2 where f: "getFilters (KeySplitString cfg ''log'' ''filters'') lg1 = (D, lg2)"
    by (cases "getFilters (KeySplitString cfg ''log'' ''filters'') lg1")
  obtain r st' where l: "loadModes ev cfg lp dln D modes (?st1\<lparr>llog := lg2\<rparr>) = (r, st')"
    by (cases "loadModes ev cfg lp dln D modes (?st1\<lparr>llog := lg2\<rparr>)")
  from None d f l have e: "ReadLoggingConfig ev modes lp cfg st = (r, st')"
    by (simp add: ReadLoggingConfig_def Close_eq)
  from loadModes_lists[OF l] show ?thesis
    unfolding e by simp
qed

lemma ReadLoggingConfig_filters:
  assumes "ReadLoggingConfig ev modes lp cfg st = (Returned None, st')"
  shows "\<exists>hs. loggers (Root st') = loggers (Root st) @ hs
       \<and> map (\<lambda>h. map_of (filters h)) hs =
           map (\<lambda>m. map_of (defaultTable cfg) ++ map_of (modeTable cfg m)) modes
       \<and> map_of (globalFilters st') =
           foldl (\<lambda>g h. map_of (filters h) ++ g) (map_of (globalFilters st)) hs"
proof -
  obtain e st1 where c: "Close ev st = (e, st1)"
    by (cases "Close ev st")
  have e: "e = None"
  proof (cases e)
    case None
    then show ?thesis .
  next
    case (Some err)
    with c assms show ?thesis by (simp add: ReadLoggingConfig_def)
  qed
  from c have st1: "Root st1 = Root st" "globalFilters st1 = globalFilters st"
    by (auto simp: Close_eq)
  obtain dln lv lg1 where d: "getLogLevelFromConfig ev ''log'' ''info'' cfg (llog st1) = (dln, lv, lg1)"
    by (cases "getLogLevelFromConfig ev ''log'' ''info'' cfg (llog st1)") auto
  obtain D lg2 where f: "getFilters (KeySplitString cfg ''log'' ''filters'') lg1 = (D, lg2)"
    by (cases "getFilters (KeySplitString cfg ''log'' ''filters'') lg1")
  have D: "D = defaultTable cfg"
    using getFilters_fst_indep[of "KeySplitString cfg ''log'' ''filters''" lg1] f
    by (simp add: defaultTable_def)
  from assms c e d f have "loadModes ev cfg lp dln D modes (st1\<lparr>llog := lg2\<rparr>) = (Returned None, st')"
    by (simp add: ReadLoggingConfig_def)
  from loadModes_filters[OF this] st1 show ?thesis
    unfolding D by simp
qed

text \<open>
  C1. What a successful \<open>ReadLoggingConfig\<close> does to the registry: \<open>Root.loggers\<close> is the
  list it was before, followed by one handler per mode, in the order of the modes; the
  entries the package's filter table had are all still there, and so are the handlers
  of \<open>loggersToReload\<close>. Nothing of the earlier load is removed.
\<close>

theorem ReadLoggingConfig_appends:
  "ReadLoggingConfig ev modes lp cfg st = (Returned None, st') \<Longrightarrow>
   (\<exists>hs. loggers (Root st') = loggers (Root st) @ hs
        \<and> map (kindOf \<circ> val) hs = map TrimSpace modes)
   \<and> map_of (globalFilters st) \<subseteq>\<^sub>m map_of (globalFilters st')
   \<and> (\<exists>rs. loggersToReload st' = loggersToReload st @ rs)"
  using ReadLoggingConfig_success by blast

theorem ReadLoggingConfig_appends_witness:
  "ReadLoggingConfig exEnv [''console''] ''/var/log/grafana'' exCfg init = (Returned None, exLoaded1)
   \<and> ReadLoggingConfig exEnv [''file''] ''/var/log/grafana'' exCfg exLoaded1 = (Returned None, exLoaded2)
   \<and> (\<exists>hs. loggers (Root exLoaded2) = loggers (Root exLoaded1) @ hs
          \<and> map (kindOf \<circ> val) hs = map TrimSpace [''file''])
   \<and> loggers (Root exLoaded2) = [exConsole, exFile]
   \<and> map_of (globalFilters exLoaded2) ''z'' = Some AllowError"
proof -
  note T = ReadLoggingConfig_appends[OF exLoaded2_run]
  have 1: "loggers (Root exLoaded2) = [exConsole, exFile]"
    by (simp add: exLoaded2_def)
  have 2: "map_of (globalFilters exLoaded2) ''z'' = Some AllowError"
    by (simp add: exLoaded2_def exLoaded1_def)
  from T exLoaded1_run exLoaded2_run 1 2 show ?thesis
    by blast
qed

text \<open>
  C5. The joined table of a mode holds, for every name, the mode's own entry when it has
  one and the default entry otherwise; the package's table after the mode holds, for
  every name, the entry it had before when it had one, and the joined table's entry
  otherwise. A successful \<open>ReadLoggingConfig\<close> installs exactly these tables (\<open>f ++ g\<close> has
  the entry of \<open>g\<close> where \<open>g\<close> has one, else that of \<open>f\<close>): the handler appended for a mode
  has the default table overridden by the mode's own table, and the package's table is
  the one it was, extended with the tables of the new handlers in the order of the
  modes, an entry already present never being replaced.
\<close>

theorem joinFilters_merge:
  "map_of (fst (joinFilters D M G)) name =
     (case map_of M name of Some v \<Rightarrow> Some v | None \<Rightarrow> map_of D name)
   \<and> map_of (snd (joinFilters D M G)) name =
     (case map_of G name of Some v \<Rightarrow> Some v | None \<Rightarrow> map_of (fst (joinFilters D M G)) name)
   \<and> (ReadLoggingConfig ev modes lp cfg st = (Returned None, st') \<longrightarrow>
        (\<exists>hs. loggers (Root st') = loggers (Root st) @ hs
             \<and> map (\<lambda>h. map_of (filters h)) hs =
                 map (\<lambda>m. map_of (defaultTable cfg) ++ map_of (modeTable cfg m)) modes
             \<and> map_of (globalFilters st') =
                 foldl (\<lambda>g h. map_of (filters h) ++ g) (map_of (globalFilters st)) hs))"
proof (intro conjI impI)
  show "map_of (fst (joinFilters D M G)) name =
     (case map_of M name of Some v \<Rightarrow> Some v | None \<Rightarrow> map_of D name)"
    by (simp add: joinFilters_fst map_add_def split: option.splits)
  show "map_of (snd (joinFilters D M G)) name =
     (case map_of G name of Some v \<Rightarrow> Some v | None \<Rightarrow> map_of (fst (joinFilters D M G)) name)"
    by (simp add: joinFilters_fst joinFilters_snd map_add_def split: option.splits)
next
  assume "ReadLoggingConfig ev modes lp cfg st = (Returned None, st')"
  then show "\<exists>hs. loggers (Root st') = loggers (Root st) @ hs
             \<and> map (\<lambda>h. map_of (filters h)) hs =
                 map (\<lambda>m. map_of (defaultTable cfg) ++ map_of (modeTable cfg m)) modes
             \<and> map_of (globalFilters st') =
                 foldl (\<lambda>g h. map_of (filters h) ++ g) (map_of (globalFilters st)) hs"
    by (rule ReadLoggingConfig_filters)
qed

lemma exCfg_tables:
  "defaultTable exCfg = [(''x'', AllowWarn)]"
  "modeTable exCfg ''console'' = [(''z'', AllowError)]"
  "modeTable exCfg ''file'' = [(''z'', AllowDebug), (''x'', AllowError)]"
  by (simp_all add: defaultTable_def modeTable_def exCfg_def TrimSpace_console TrimSpace_file
      getFilters_def Let_def getLogLevelFromString_def logLevels_def)

theorem joinFilters_merge_witness:
  "joinFilters [(''x'', AllowWarn)] [(''y'', AllowError)] [] =
     ([(''y'', AllowError), (''x'', AllowWarn)], [(''y'', AllowError), (''x'', AllowWarn)])
   \<and> map_of (fst (joinFilters [(''x'', AllowWarn)] [(''x'', AllowError)] [])) ''x'' = Some AllowError
   \<and> map_of (snd (joinFilters [] [(''z'', AllowDebug)] [(''z'', AllowError)])) ''z'' = Some AllowError
   \<and> map_of (fst (joinFilters [] [(''z'', AllowDebug)] [(''z'', AllowError)])) ''z'' = Some AllowDebug
   \<and> ReadLoggingConfig exEnv [''console''] ''/var/log/grafana'' exCfg init = (Returned None, exLoaded1)
   \<and> (\<exists>hs. loggers (Root exLoaded1) = loggers (Root init) @ hs
          \<and> map (\<lambda>h. map_of (filters h)) hs =
              map (\<lambda>m. map_of (defaultTable exCfg) ++ map_of (modeTable exCfg m)) [''console'']
          \<and> map_of (globalFilters exLoaded1) =
              foldl (\<lambda>g h. map_of (filters h) ++ g) (map_of (globalFilters init)) hs)
   \<and> modeTable exCfg ''console'' = [(''z'', AllowError)]
   \<and> loggers (Root exLoaded1) = loggers (Root init) @ [exConsole]
   \<and> filters exConsole = [(''z'', AllowError), (''x'', AllowWarn)]
   \<and> globalFilters init = []
   \<and> ReadLoggingConfig exEnv [''file''] ''/var/log/grafana'' exCfg exLoaded1 = (Returned None, exLoaded2)
   \<and> (\<exists>hs. loggers (Root exLoaded2) = loggers (Root exLoaded1) @ hs
          \<and> map (\<lambda>h. map_of (filters h)) hs =
              map (\<lambda>m. map_of (defaultTable exCfg) ++ map_of (modeTable exCfg m)) [''file'']
          \<and> map_of (globalFilters exLoaded2) =
              foldl (\<lambda>g h. map_of (filters h) ++ g) (map_of (globalFilters exLoaded1)) hs)
   \<and> defaultTable exCfg = [(''x'', AllowWarn)]
   \<and> modeTable exCfg ''file'' = [(''z'', AllowDebug), (''x'', AllowError)]
   \<and> loggers (Root exLoaded2) = loggers (Root exLoaded1) @ [exFile]
   \<and> filters exFile = [(''z'', AllowDebug), (''x'', AllowError)]
   \<and> globalFilters exLoaded1 = [(''z'', AllowError), (''x'', AllowWarn)]
   \<and> globalFilters exLoaded2 = [(''z'', AllowError), (''x'', AllowWarn)]"
proof -
  have 1: "joinFilters [(''x'', AllowWarn)] [(''y'', AllowError)] [] =
     ([(''y'', AllowError), (''x'', AllowWarn)], [(''y'', AllowError), (''x'', AllowWarn)])"
    by (simp add: joinFilters_def Let_def)
  have 2: "map_of (fst (joinFilters [(''x'', AllowWarn)] [(''x'', AllowError)] [])) ''x'' = Some AllowError"
    using joinFilters_merge[where D = "[(''x'', AllowWarn)]" and M = "[(''x'', AllowError)]"
        and G = "[]" and name = "''x''", THEN conjunct1]
    by simp
  have 3: "map_of (snd (joinFilters [] [(''z'', AllowDebug)] [(''z'', AllowError)])) ''z'' = Some AllowError"
    using joinFilters_merge[where D = "[]" and M = "[(''z'', AllowDebug)]"
        and G = "[(''z'', AllowError)]" and name = "''z''", THEN conjunct2, THEN conjunct1]
    by simp
  have 4: "map_of (fst (joinFilters [] [(''z'', AllowDebug)] [(''z'', AllowError)])) ''z'' = Some AllowDebug"
    using joinFilters_merge[where D = "[]" and M = "[(''z'', AllowDebug)]"
        and G = "[(''z'', AllowError)]" and name = "''z''", THEN conjunct1]
    by simp
  note 5 = joinFilters_merge[where ev = exEnv and modes = "[''file'']"
      and lp = "''/var/log/grafana''" and cfg = exCfg and st = exLoaded1 and st' = exLoaded2,
      THEN conjunct2, THEN conjunct2, THEN mp, OF exLoaded2_run]
  have 6: "loggers (Root exLoaded2) = loggers (Root exLoaded1) @ [exFile]"
    "filters exFile = [(''z'', AllowDebug), (''x'', AllowError)]"
    "globalFilters exLoaded1 = [(''z'', AllowError), (''x'', AllowWarn)]"
    "globalFilters exLoaded2 = [(''z'', AllowError), (''x'', AllowWarn)]"
    by (simp_all add: exLoaded2_def exLoaded1_def exFile_def)
  note 7 = joinFilters_merge[where ev = exEnv and modes = "[''console'']"
      and lp = "''/var/log/grafana''" and cfg = exCfg and st = init and st' = exLoaded1,
      THEN conjunct2, THEN conjunct2, THEN mp, OF exLoaded1_run]
  have 8: "loggers (Root exLoaded1) = loggers (Root init) @ [exConsole]"
    "filters exConsole = [(''z'', AllowError), (''x'', AllowWarn)]"
    "globalFilters init = []"
    by (simp_all add: exLoaded1_def init_def exConsole_def)
  from 1 2 3 4 exLoaded1_run 7 exCfg_tables(2) 8 exLoaded2_run 5 exCfg_tables(1) exCfg_tables(3) 6
  show ?thesis
    by (intro conjI)
qed

text \<open>
  C2. \<open>ReadLoggingConfig\<close> begins with \<open>Close\<close>: however it ends, the calls it makes on
  handlers are one \<open>Close\<close> per handler of the closable list it found, in order, and the
  closable list it leaves holds only writers of handlers it has installed itself. When
  \<open>Close\<close> returns an error, \<open>ReadLoggingConfig\<close> returns that error at once: the state is
  the one \<open>Close\<close> left (closable list empty) and no mode is loaded. So a load that returns
  \<open>nil\<close> had a \<open>Close\<close> that returned \<open>nil\<close>.
\<close>

theorem ReadLoggingConfig_close_error:
  "calls (snd (ReadLoggingConfig ev modes lp cfg st)) =
     calls st @ map CloseCall (loggersToClose st)
   \<and> (\<exists>hs. loggers (Root (snd (ReadLoggingConfig ev modes lp cfg st))) = loggers (Root st) @ hs
          \<and> loggersToClose (snd (ReadLoggingConfig ev modes lp cfg st)) =
              filter closable (map val hs))
   \<and> (fst (Close ev st) = Some err \<longrightarrow>
        ReadLoggingConfig ev modes lp cfg st =
          (Returned (Some err),
           st\<lparr>loggersToClose := [], calls := calls st @ map CloseCall (loggersToClose st)\<rparr>))
   \<and> (fst (ReadLoggingConfig ev modes lp cfg st) = Returned None \<longrightarrow> fst (Close ev st) = None)"
proof (intro conjI impI)
  show "calls (snd (ReadLoggingConfig ev modes lp cfg st)) =
     calls st @ map CloseCall (loggersToClose st)"
    using ReadLoggingConfig_lists[of ev modes lp cfg st] by (rule conjunct2)
  show "\<exists>hs. loggers (Root (snd (ReadLoggingConfig ev modes lp cfg st))) = loggers (Root st) @ hs
          \<and> loggersToClose (snd (ReadLoggingConfig ev modes lp cfg st)) =
              filter closable (map val hs)"
    using ReadLoggingConfig_lists[of ev modes lp cfg st] by (rule conjunct1)
next
  assume "fst (Close ev st) = Some err"
  from ReadLoggingConfig_close_fails[OF this]
  show "ReadLoggingConfig ev modes lp cfg st =
        (Returned (Some err),
         st\<lparr>loggersToClose := [], calls := calls st @ map CloseCall (loggersToClose st)\<rparr>)"
    by (simp add: Close_eq)
next
  assume "fst (ReadLoggingConfig ev modes lp cfg st) = Returned None"
  then obtain st' where "ReadLoggingConfig ev modes lp cfg st = (Returned None, st')"
    by (cases "ReadLoggingConfig ev modes lp cfg st") simp
  from ReadLoggingConfig_success[OF this] show "fst (Close ev st) = None"
    by simp
qed

lemma exCloseFails_Close:
  "Close exCloseFails exLoaded2 =
     (Some (ExternalError ''close failed''),
      exLoaded2\<lparr>loggersToClose := [], calls := [CloseCall (FileLogger exFileWriter)]\<rparr>)"
  by (simp add: Close_def exCloseFails_def exLoaded2_def exLoaded1_def init_def)

lemma exLoaded2_console_ok:
  "fst (ReadLoggingConfig exEnv [''console''] ''/var/log/grafana'' exCfg exLoaded2) = Returned None"
  by (simp add: eval_defs exLoaded1_def exLoaded2_def exConsole_def exFile_def exFileWriter_def)

theorem ReadLoggingConfig_close_error_counterexample:
  "fst (Close exCloseFails exLoaded2) = Some (ExternalError ''close failed'')
   \<and> fst (ReadLoggingConfig exEnv [''console''] ''/var/log/grafana'' exCfg exLoaded2) = Returned None
   \<and> fst (ReadLoggingConfig exCloseFails [''console''] ''/var/log/grafana'' exCfg exLoaded2) =
       Returned (Some (ExternalError ''close failed''))
   \<and> Root (snd (ReadLoggingConfig exCloseFails [''console''] ''/var/log/grafana'' exCfg exLoaded2)) =
       Root exLoaded2"
proof -
  have c: "fst (Close exCloseFails exLoaded2) = Some (ExternalError ''close failed'')"
    by (simp add: exCloseFails_Close)
  have r: "ReadLoggingConfig exCloseFails [''console''] ''/var/log/grafana'' exCfg exLoaded2 =
      (Returned (Some (ExternalError ''close failed'')),
       exLoaded2\<lparr>loggersToClose := [], calls := [CloseCall (FileLogger exFileWriter)]\<rparr>)"
    using ReadLoggingConfig_close_fails[OF c] by (simp add: exCloseFails_Close)
  from c exLoaded2_console_ok r show ?thesis
    by simp
qed

theorem ReadLoggingConfig_close_error_witness:
  "fst (Close exCloseFails exLoaded2) = Some (ExternalError ''close failed'')
   \<and> ReadLoggingConfig exCloseFails [''console'', ''file''] ''/var/log/grafana'' exCfg exLoaded2 =
       (Returned (Some (ExternalError ''close failed'')),
        exLoaded2\<lparr>loggersToClose := [], calls := [CloseCall (FileLogger exFileWriter)]\<rparr>)
   \<and> fst (ReadLoggingConfig exEnv [''file''] ''/var/log/grafana'' exCfg exLoaded1) = Returned None
   \<and> fst (Close exEnv exLoaded1) = None
   \<and> fst (ReadLoggingConfig exEnv [''console''] ''/var/log/grafana'' exCfg exLoaded2) = Returned None
   \<and> calls (snd (ReadLoggingConfig exEnv [''console''] ''/var/log/grafana'' exCfg exLoaded2)) =
       [CloseCall (FileLogger exFileWriter)]"
proof -
  have c: "fst (Close exCloseFails exLoaded2) = Some (ExternalError ''close failed'')"
    by (simp add: exCloseFails_Close)
  have l: "calls exLoaded2 @ map CloseCall (loggersToClose exLoaded2) =
             [CloseCall (FileLogger exFileWriter)]"
    by (simp add: exLoaded2_def exLoaded1_def init_def)
  have 1: "ReadLoggingConfig exCloseFails [''console'', ''file''] ''/var/log/grafana'' exCfg exLoaded2 =
       (Returned (Some (ExternalError ''close failed'')),
        exLoaded2\<lparr>loggersToClose := [], calls := [CloseCall (FileLogger exFileWriter)]\<rparr>)"
    using ReadLoggingConfig_close_error
        [where ev = exCloseFails and st = exLoaded2 and err = "ExternalError ''close failed''"
           and modes = "[''console'', ''file'']" and lp = "''/var/log/grafana''" and cfg = exCfg,
         THEN conjunct2, THEN conjunct2, THEN conjunct1, THEN mp, OF c]
    unfolding l .
  have s: "fst (ReadLoggingConfig exEnv [''file''] ''/var/log/grafana'' exCfg exLoaded1) = Returned None"
    by (simp add: exLoaded2_run)
  have 2: "fst (Close exEnv exLoaded1) = None"
    using ReadLoggingConfig_close_error
        [where ev = exEnv and st = exLoaded1 and modes = "[''file'']"
           and lp = "''/var/log/grafana''" and cfg = exCfg,
         THEN conjunct2, THEN conjunct2, THEN conjunct2, THEN mp, OF s] .
  have 3: "calls (snd (ReadLoggingConfig exEnv [''console''] ''/var/log/grafana'' exCfg exLoaded2)) =
       [CloseCall (FileLogger exFileWriter)]"
    using ReadLoggingConfig_close_error
        [where ev = exEnv and st = exLoaded2 and modes = "[''console'']"
           and lp = "''/var/log/grafana''" and cfg = exCfg, THEN conjunct1]
    unfolding l .
  from c 1 s 2 exLoaded2_console_ok 3 show ?thesis
    by blast
qed

lemma New_loop_eq:
  "New_loop logger ctx ls acc = acc\<lparr>loggers := loggers acc @ map (bound logger ctx) ls\<rparr>"
proof (induction ls arbitrary: acc)
  case Nil
  then show ?case by simp
next
  case (Cons l ls)
  show ?case
    by (cases "map_of (filters l) logger") (simp_all add: Cons.IH bound_def Let_def)
qed

lemma New_eq: "New logger ctx st = \<lparr>loggers = map (bound logger ctx) (loggers (Root st))\<rparr>"
  by (simp add: New_def New_loop_eq)

lemma sinkOf_kindOf: "kindOf (sinkOf l) = kindOf l"
  by (induction l) simp_all

text \<open>
  C4. \<open>New\<close> wraps every entry of \<open>Root.loggers\<close>, in order, in \<open>log.With\<close> (the logger name
  and the context) and then in \<open>level.NewFilter\<close> with the entry's own filter for that
  name when it has one, else with the entry's \<open>maxLevel\<close>. The level is inside the
  \<open>val\<close> the Named Logger keeps: the dispatch methods call \<open>val.Log\<close> only, so whatever the
  filter table or the \<open>maxLevel\<close> of an entry becomes afterwards, the calls are the same.
\<close>

theorem New_binds_filter:
  "loggers (New logger ctx st) = map (bound logger ctx) (loggers (Root st))
   \<and> map (boundLevel \<circ> val) (loggers (New logger ctx st)) =
       map (\<lambda>lwf. Some (case map_of (filters lwf) logger of Some v \<Rightarrow> v | None \<Rightarrow> maxLevel lwf))
         (loggers (Root st))
   \<and> dispatch lv
        \<lparr>loggers = map (\<lambda>l. l\<lparr>filters := fs l, maxLevel := ml l\<rparr>) (loggers (New logger ctx st))\<rparr>
        msg args =
       dispatch lv (New logger ctx st) msg args"
  by (simp add: New_eq dispatch_def bound_def comp_def)

lemma exLoadedAuth_run:
  "ReadLoggingConfig exEnv [''file''] ''/var/log/grafana'' exCfgAuth exLoaded1 =
     (Returned None,
      exLoaded1\<lparr>loggersToClose := [FileLogger exFileWriter],
                loggersToReload := [FileLogger exFileWriter],
                globalFilters := [(''z'', AllowError), (''x'', AllowWarn), (''auth'', AllowError)],
                Root := \<lparr>loggers = [exConsole,
                  \<lparr>val = FileLogger exFileWriter, filters = [(''auth'', AllowError)],
                   maxLevel = AllowDebug\<rparr>]\<rparr>\<rparr>)"
  by (simp add: eval_defs exCfgAuth_def exLoaded1_def exConsole_def exFileWriter_def)

theorem New_binds_filter_witness:
  "map (boundLevel \<circ> val) (loggers (New ''auth'' [] exLoaded1)) = [Some AllowInfo]
   \<and> map (boundLevel \<circ> val)
        (loggers (New ''auth'' []
           (snd (ReadLoggingConfig exEnv [''file''] ''/var/log/grafana'' exCfgAuth exLoaded1)))) =
       [Some AllowInfo, Some AllowError]
   \<and> Warn (New ''auth'' [] exLoaded1) ''hello'' [] =
       [(NewFilter (With (ConsoleLogger Logfmt) [L [S ''logger'', S ''auth'']]) AllowInfo,
         [LevelKey, LevelV WarnValue, S ''msg'', S ''hello'', L []])]"
proof -
  have 1: "map (boundLevel \<circ> val) (loggers (New ''auth'' [] exLoaded1)) = [Some AllowInfo]"
    using conjunct1[OF conjunct2[OF New_binds_filter[of "''auth''" "[]" exLoaded1]]]
    by (simp add: exLoaded1_def exConsole_def)
  have 2: "map (boundLevel \<circ> val)
        (loggers (New ''auth'' []
           (snd (ReadLoggingConfig exEnv [''file''] ''/var/log/grafana'' exCfgAuth exLoaded1)))) =
       [Some AllowInfo, Some AllowError]"
    using conjunct1[OF conjunct2[OF New_binds_filter[of "''auth''" "[]"
      "snd (ReadLoggingConfig exEnv [''file''] ''/var/log/grafana'' exCfgAuth exLoaded1)"]]]
    by (simp add: exLoadedAuth_run exConsole_def)
  have 3: "Warn (New ''auth'' [] exLoaded1) ''hello'' [] =
       [(NewFilter (With (ConsoleLogger Logfmt) [L [S ''logger'', S ''auth'']]) AllowInfo,
         [LevelKey, LevelV WarnValue, S ''msg'', S ''hello'', L []])]"
    using conjunct1[OF New_binds_filter[of "''auth''" "[]" exLoaded1]]
    by (simp add: Warn_def dispatch_def exLoaded1_def exConsole_def bound_def)
  from 1 2 3 show ?thesis by blast
qed

text \<open>
  C3. A mode that, after trimming, is none of \<open>console\<close>, \<open>file\<close>, \<open>syslog\<close> is never
  skipped. When the loop reaches it, with no section \<open>log.<mode>\<close> the load writes one
  \<open>Unknown log mode\<close> record to the bootstrap logger and returns a wrapped error; with the
  section the load panics. Either way no handler is made for that mode or for a later
  one, and a load whose modes hold such a name does not return \<open>nil\<close>.
\<close>

theorem unrecognized_mode_stops_load:
  "\<not> recognized (TrimSpace m) \<longrightarrow>
     (\<not> GetSection cfg (''log.'' @ TrimSpace m) \<longrightarrow>
        loadModes ev cfg lp dln D (m # rest) st =
          (Returned (Some (Wrapf (SectionNotExist (''log.'' @ TrimSpace m))
                             ''failed to get config section log.%s'' [TrimSpace m])),
           st\<lparr>llog := llog st @ [levelError [S ''Unknown log mode'', S ''mode'', S (TrimSpace m)]]\<rparr>))
   \<and> (GetSection cfg (''log.'' @ TrimSpace m) \<longrightarrow>
        fst (loadModes ev cfg lp dln D (m # rest) st) =
          Panicked ''Handler is uninitialized for mode %q'' [TrimSpace m]
        \<and> Root (snd (loadModes ev cfg lp dln D (m # rest) st)) = Root st
        \<and> loggersToClose (snd (loadModes ev cfg lp dln D (m # rest) st)) = loggersToClose st
        \<and> loggersToReload (snd (loadModes ev cfg lp dln D (m # rest) st)) = loggersToReload st)
   \<and> (m \<in> set modes \<longrightarrow> fst (ReadLoggingConfig ev modes lp cfg st) \<noteq> Returned None)"
proof (intro impI conjI)
  assume "\<not> GetSection cfg (''log.'' @ TrimSpace m)"
  then show "loadModes ev cfg lp dln D (m # rest) st =
          (Returned (Some (Wrapf (SectionNotExist (''log.'' @ TrimSpace m))
                             ''failed to get config section log.%s'' [TrimSpace m])),
           st\<lparr>llog := llog st @ [levelError [S ''Unknown log mode'', S ''mode'', S (TrimSpace m)]]\<rparr>)"
    by (rule loadModes_no_section)
next
  assume u: "\<not> recognized (TrimSpace m)" and s: "GetSection cfg (''log.'' @ TrimSpace m)"
  note P = loadModes_unrecognized[OF s u, of ev lp dln D rest st]
  show "fst (loadModes ev cfg lp dln D (m # rest) st) =
          Panicked ''Handler is uninitialized for mode %q'' [TrimSpace m]"
    unfolding P by simp
  show "Root (snd (loadModes ev cfg lp dln D (m # rest) st)) = Root st"
    unfolding P by simp
  show "loggersToClose (snd (loadModes ev cfg lp dln D (m # rest) st)) = loggersToClose st"
    unfolding P by simp
  show "loggersToReload (snd (loadModes ev cfg lp dln D (m # rest) st)) = loggersToReload st"
    unfolding P by simp
next
  assume u: "\<not> recognized (TrimSpace m)" and m: "m \<in> set modes"
  show "fst (ReadLoggingConfig ev modes lp cfg st) \<noteq> Returned None"
  proof
    assume "fst (ReadLoggingConfig ev modes lp cfg st) = Returned None"
    then obtain st' where "ReadLoggingConfig ev modes lp cfg st = (Returned None, st')"
      by (cases "ReadLoggingConfig ev modes lp cfg st") simp
    from ReadLoggingConfig_success[OF this, THEN conjunct2, THEN conjunct1]
    have "\<exists>hs :: LogWithFilters list. map (kindOf \<circ> val) hs = map TrimSpace modes"
      by (elim exE conjE) (rule exI)
    then obtain hs :: "LogWithFilters list" where
      hs: "map (kindOf \<circ> val) hs = map TrimSpace modes" ..
    from m have "TrimSpace m \<in> set (map TrimSpace modes)"
      by simp
    then have "TrimSpace m \<in> set (map (kindOf \<circ> val) hs)"
      by (simp only: hs)
    then have "recognized (TrimSpace m)"
      by (auto simp: kindOf_recognized)
    with u show False ..
  qed
qed

lemma bogus_unrecognized: "\<not> recognized ''bogus''"
  by (simp add: recognized_def)

lemma bogus_no_section:
  "ReadLoggingConfig exEnv [''console'', '' bogus ''] ''/var/log/grafana'' exCfg init =
     (Returned (Some (Wrapf (SectionNotExist ''log.bogus'')
                        ''failed to get config section log.%s'' [''bogus''])),
      exLoaded1\<lparr>llog := [levelError [S ''Unknown log mode'', S ''mode'', S ''bogus'']]\<rparr>)"
  by (simp add: eval_defs exLoaded1_def exConsole_def)

lemma bogus_panics:
  "ReadLoggingConfig exEnv [''console'', '' bogus ''] ''/var/log/grafana'' exCfgAll init =
     (Panicked ''Handler is uninitialized for mode %q'' [''bogus''], exLoaded1)"
  by (simp add: eval_defs exCfgAll_def exLoaded1_def exConsole_def)

lemma TrimSpace_exNbspMode: "TrimSpace exNbspMode = ''console''"
  by code_simp

lemma exNbspMode_loads:
  "ReadLoggingConfig exEnv [exNbspMode] ''/var/log/grafana'' exCfg init = (Returned None, exLoaded1)"
  by (simp add: eval_defs TrimSpace_exNbspMode exLoaded1_def exConsole_def)

theorem unrecognized_mode_counterexample:
  "\<not> recognized (TrimSpace '' bogus '')
   \<and> fst (ReadLoggingConfig exEnv [''console'', '' bogus ''] ''/var/log/grafana'' exCfg init) =
       Returned (Some (Wrapf (SectionNotExist ''log.bogus'')
                         ''failed to get config section log.%s'' [''bogus'']))
   \<and> fst (ReadLoggingConfig exEnv [''console'', '' bogus ''] ''/var/log/grafana'' exCfgAll init) =
       Panicked ''Handler is uninitialized for mode %q'' [''bogus'']"
  by (simp add: TrimSpace_bogus bogus_unrecognized bogus_no_section bogus_panics)

theorem unrecognized_mode_stops_load_witness:
  "\<not> recognized (TrimSpace '' bogus '')
   \<and> \<not> GetSection exCfg (''log.'' @ TrimSpace '' bogus '')
   \<and> loadModes exEnv exCfg ''/var/log/grafana'' ''info'' [] ['' bogus '', ''console''] init =
       (Returned (Some (Wrapf (SectionNotExist ''log.bogus'')
                          ''failed to get config section log.%s'' [''bogus''])),
        init\<lparr>llog := [levelError [S ''Unknown log mode'', S ''mode'', S ''bogus'']]\<rparr>)
   \<and> GetSection exCfgAll (''log.'' @ TrimSpace '' bogus '')
   \<and> fst (loadModes exEnv exCfgAll ''/var/log/grafana'' ''info'' [] ['' bogus '', ''console''] init) =
       Panicked ''Handler is uninitialized for mode %q'' [''bogus'']
   \<and> Root (snd (loadModes exEnv exCfgAll ''/var/log/grafana'' ''info'' [] ['' bogus '', ''console''] init)) =
       Root init
   \<and> fst (ReadLoggingConfig exEnv [''console'', '' bogus ''] ''/var/log/grafana'' exCfgAll init) \<noteq>
       Returned None"
proof -
  have u: "\<not> recognized (TrimSpace '' bogus '')"
    by (simp add: TrimSpace_bogus bogus_unrecognized)
  have n: "\<not> GetSection exCfg (''log.'' @ TrimSpace '' bogus '')"
    by (simp add: TrimSpace_bogus exCfg_def)
  have s: "GetSection exCfgAll (''log.'' @ TrimSpace '' bogus '')"
    by (simp add: exCfgAll_def)
  have i: "'' bogus '' \<in> set [''console'', '' bogus '']"
    by simp
  note A = unrecognized_mode_stops_load
    [of "'' bogus ''" exCfg exEnv "''/var/log/grafana''" "''info''" "[]" "[''console'']" init
        "[''console'', '' bogus '']", THEN mp, OF u]
  note B = unrecognized_mode_stops_load
    [of "'' bogus ''" exCfgAll exEnv "''/var/log/grafana''" "''info''" "[]" "[''console'']" init
        "[''console'', '' bogus '']", THEN mp, OF u]
  note B2 = B[THEN conjunct2, THEN conjunct1, THEN mp, OF s]
  have 1: "loadModes exEnv exCfg ''/var/log/grafana'' ''info'' [] ['' bogus '', ''console''] init =
       (Returned (Some (Wrapf (SectionNotExist ''log.bogus'')
                          ''failed to get config section log.%s'' [''bogus''])),
        init\<lparr>llog := [levelError [S ''Unknown log mode'', S ''mode'', S ''bogus'']]\<rparr>)"
    using A[THEN conjunct1, THEN mp, OF n] by (simp add: TrimSpace_bogus init_def)
  have 2: "fst (loadModes exEnv exCfgAll ''/var/log/grafana'' ''info'' [] ['' bogus '', ''console''] init) =
       Panicked ''Handler is uninitialized for mode %q'' [''bogus'']"
    using B2[THEN conjunct1] by (simp add: TrimSpace_bogus)
  have 3: "Root (snd (loadModes exEnv exCfgAll ''/var/log/grafana'' ''info'' [] ['' bogus '', ''console''] init)) =
       Root init"
    using B2[THEN conjunct2, THEN conjunct1] .
  have 4: "fst (ReadLoggingConfig exEnv [''console'', '' bogus ''] ''/var/log/grafana'' exCfgAll init) \<noteq>
       Returned None"
    using B[THEN conjunct2, THEN conjunct2, THEN mp, OF i] .
  from u n 1 s 2 3 4 show ?thesis
    by blast
qed

lemma exStale_run:
  "ReadLoggingConfig exEnv [''file''] ''/var/log/grafana'' (exCfgFile ''b.log'')
     (snd (ReadLoggingConfig exEnv [''file''] ''/var/log/grafana'' (exCfgFile ''a.log'') init)) =
   (Returned None, exStale)"
  by (simp add: eval_defs exCfgFile_def exStale_def exHandle_def exWriter_def)

lemma uptoFirstError_all:
  "\<forall>l\<in>set ls. f l = None \<Longrightarrow> uptoFirstError f ls = ls"
  by (induction ls) simp_all

lemma uptoFirstError_hd: "ls \<noteq> [] \<Longrightarrow> hd ls \<in> set (uptoFirstError f ls)"
  by (cases ls) simp_all

lemma Close_Reload:
  "Reload ev (snd (Close ev st)) =
     (firstError (handlerReload ev) (loggersToReload st),
      st\<lparr>loggersToClose := [],
         calls := calls st @ map CloseCall (loggersToClose st) @
                  map ReloadCall (uptoFirstError (handlerReload ev) (loggersToReload st))\<rparr>)"
  by (simp add: Close_eq Reload_eq)

text \<open>
  C10. \<open>Close\<close> empties \<open>loggersToClose\<close> and leaves \<open>loggersToReload\<close>, \<open>Root\<close> and the
  filter table as they were. So \<open>Reload\<close> after \<open>Close\<close> calls \<open>Reload\<close> on the handlers of
  the unchanged \<open>loggersToReload\<close>, closed or not, in order, up to and with the first that
  fails: on all of them when none fails, and on the first one whenever the list is not
  empty. A Named Logger made after \<open>Close\<close> is the one \<open>New\<close> made before it, and its
  dispatch calls reach the writers of \<open>Root.loggers\<close>, the closed ones among them.
\<close>

theorem Close_frame:
  "loggersToReload (snd (Close ev st)) = loggersToReload st
   \<and> Root (snd (Close ev st)) = Root st
   \<and> globalFilters (snd (Close ev st)) = globalFilters st
   \<and> loggersToClose (snd (Close ev st)) = []
   \<and> Reload ev (snd (Close ev st)) =
       (firstError (handlerReload ev) (loggersToReload st),
        st\<lparr>loggersToClose := [],
           calls := calls st @ map CloseCall (loggersToClose st) @
                    map ReloadCall (uptoFirstError (handlerReload ev) (loggersToReload st))\<rparr>)
   \<and> ((\<forall>l\<in>set (loggersToReload st). handlerReload ev l = None) \<longrightarrow>
        calls (snd (Reload ev (snd (Close ev st)))) =
          calls st @ map CloseCall (loggersToClose st) @ map ReloadCall (loggersToReload st))
   \<and> (loggersToReload st \<noteq> [] \<longrightarrow>
        ReloadCall (hd (loggersToReload st)) \<in> set (calls (snd (Reload ev (snd (Close ev st))))))
   \<and> New logger ctx (snd (Close ev st)) = New logger ctx st
   \<and> map (sinkOf \<circ> fst) (dispatch lv (New logger ctx (snd (Close ev st))) msg args) =
       map (sinkOf \<circ> val) (loggers (Root st))"
proof (intro conjI impI)
  show "loggersToReload (snd (Close ev st)) = loggersToReload st"
    by (simp add: Close_eq)
  show "Root (snd (Close ev st)) = Root st"
    by (simp add: Close_eq)
  show "globalFilters (snd (Close ev st)) = globalFilters st"
    by (simp add: Close_eq)
  show "loggersToClose (snd (Close ev st)) = []"
    by (simp add: Close_eq)
  show "Reload ev (snd (Close ev st)) =
       (firstError (handlerReload ev) (loggersToReload st),
        st\<lparr>loggersToClose := [],
           calls := calls st @ map CloseCall (loggersToClose st) @
                    map ReloadCall (uptoFirstError (handlerReload ev) (loggersToReload st))\<rparr>)"
    by (rule Close_Reload)
  show "New logger ctx (snd (Close ev st)) = New logger ctx st"
    by (simp add: New_def Close_eq)
  show "map (sinkOf \<circ> fst) (dispatch lv (New logger ctx (snd (Close ev st))) msg args) =
       map (sinkOf \<circ> val) (loggers (Root st))"
    by (simp add: New_eq Close_eq dispatch_def bound_def comp_def)
next
  assume "\<forall>l\<in>set (loggersToReload st). handlerReload ev l = None"
  then have "uptoFirstError (handlerReload ev) (loggersToReload st) = loggersToReload st"
    by (rule uptoFirstError_all)
  then show "calls (snd (Reload ev (snd (Close ev st)))) =
          calls st @ map CloseCall (loggersToClose st) @ map ReloadCall (loggersToReload st)"
    by (simp add: Close_Reload)
next
  assume "loggersToReload st \<noteq> []"
  then have "hd (loggersToReload st) \<in> set (uptoFirstError (handlerReload ev) (loggersToReload st))"
    by (rule uptoFirstError_hd)
  then show "ReloadCall (hd (loggersToReload st)) \<in> set (calls (snd (Reload ev (snd (Close ev st)))))"
    by (simp add: Close_Reload)
qed

theorem Close_frame_counterexample:
  "loggersToReload exStale \<noteq> []
   \<and> FileLogger (exWriter ''b.log'') \<in> set (loggersToClose exStale)
   \<and> FileLogger (exWriter ''b.log'') \<in> set (loggersToReload exStale)
   \<and> Reload exReloadFails (snd (Close exReloadFails exStale)) =
       (Some (ExternalError ''reload a''),
        exStale\<lparr>loggersToClose := [],
                calls := [CloseCall (FileLogger (exWriter ''a.log'')),
                          CloseCall (FileLogger (exWriter ''b.log'')),
                          ReloadCall (FileLogger (exWriter ''a.log''))]\<rparr>)
   \<and> ReloadCall (FileLogger (exWriter ''b.log'')) \<notin>
       set (calls (snd (Reload exReloadFails (snd (Close exReloadFails exStale)))))"
proof -
  have a: "handlerReload exReloadFails (FileLogger (exWriter ''a.log'')) = Some (ExternalError ''reload a'')"
    by (simp add: exReloadFails_def exEnv_def)
  have r: "Reload exReloadFails (snd (Close exReloadFails exStale)) =
       (Some (ExternalError ''reload a''),
        exStale\<lparr>loggersToClose := [],
                calls := [CloseCall (FileLogger (exWriter ''a.log'')),
                          CloseCall (FileLogger (exWriter ''b.log'')),
                          ReloadCall (FileLogger (exWriter ''a.log''))]\<rparr>)"
    unfolding Close_Reload by (simp add: exStale_def firstError_def a)
  have n: "ReloadCall (FileLogger (exWriter ''b.log'')) \<notin>
       set (calls (snd (Reload exReloadFails (snd (Close exReloadFails exStale)))))"
    unfolding r by (simp add: exWriter_def)
  have s: "loggersToReload exStale \<noteq> []"
    "FileLogger (exWriter ''b.log'') \<in> set (loggersToClose exStale)"
    "FileLogger (exWriter ''b.log'') \<in> set (loggersToReload exStale)"
    by (simp_all add: exStale_def)
  from s r n show ?thesis
    by blast
qed

theorem Close_frame_witness:
  "handlerReload exEnv (FileLogger (exWriter ''a.log'')) = None
   \<and> handlerReload exEnv (FileLogger (exWriter ''b.log'')) = None
   \<and> loggersToReload exStale \<noteq> []
   \<and> calls (snd (Reload exEnv (snd (Close exEnv exStale)))) =
       [CloseCall (FileLogger (exWriter ''a.log'')),
        CloseCall (FileLogger (exWriter ''b.log'')),
        ReloadCall (FileLogger (exWriter ''a.log'')),
        ReloadCall (FileLogger (exWriter ''b.log''))]
   \<and> ReloadCall (FileLogger (exWriter ''a.log'')) \<in>
       set (calls (snd (Reload exReloadFails (snd (Close exReloadFails exStale)))))
   \<and> map (sinkOf \<circ> fst) (Warn (New ''auth'' [] (snd (Close exEnv exStale))) ''hello'' []) =
       [FileLogger (exWriter ''a.log''), FileLogger (exWriter ''b.log'')]"
proof -
  have h: "\<forall>l\<in>set (loggersToReload exStale). handlerReload exEnv l = None"
    by (simp add: exEnv_def)
  have n: "loggersToReload exStale \<noteq> []"
    by (simp add: exStale_def)
  note T = Close_frame[of exEnv exStale "''auth''" "[]" WarnValue "''hello''" "[]"]
  note U = Close_frame[of exReloadFails exStale "''auth''" "[]" WarnValue "''hello''" "[]"]
  have 1: "calls (snd (Reload exEnv (snd (Close exEnv exStale)))) =
       [CloseCall (FileLogger (exWriter ''a.log'')),
        CloseCall (FileLogger (exWriter ''b.log'')),
        ReloadCall (FileLogger (exWriter ''a.log'')),
        ReloadCall (FileLogger (exWriter ''b.log''))]"
    using T[THEN conjunct2, THEN conjunct2, THEN conjunct2, THEN conjunct2, THEN conjunct2,
            THEN conjunct1, THEN mp, OF h]
    by (simp add: exStale_def)
  have 2: "ReloadCall (FileLogger (exWriter ''a.log'')) \<in>
       set (calls (snd (Reload exReloadFails (snd (Close exReloadFails exStale)))))"
    using U[THEN conjunct2, THEN conjunct2, THEN conjunct2, THEN conjunct2, THEN conjunct2,
            THEN conjunct2, THEN conjunct1, THEN mp, OF n]
    by (simp add: exStale_def)
  have 3: "map (sinkOf \<circ> fst) (Warn (New ''auth'' [] (snd (Close exEnv exStale))) ''hello'' []) =
       [FileLogger (exWriter ''a.log''), FileLogger (exWriter ''b.log'')]"
    using T[THEN conjunct2, THEN conjunct2, THEN conjunct2, THEN conjunct2, THEN conjunct2,
            THEN conjunct2, THEN conjunct2, THEN conjunct2]
    by (simp add: Warn_def exStale_def exHandle_def)
  have e: "handlerReload exEnv (FileLogger (exWriter ''a.log'')) = None"
    "handlerReload exEnv (FileLogger (exWriter ''b.log'')) = None"
    by (simp_all add: exEnv_def)
  from e n 1 2 3 show ?thesis
    by blast
qed

end
